theory Spec2Isabelle
  imports Main
begin

section \<open>JavaScript strings\<close>

text \<open>
  The token pipeline of \<^verbatim>\<open>scripts/tokens/app.mjs\<close> is string processing over parsed
  JSON. A JavaScript string is modelled as a \<^typ>\<open>string\<close>: a character is one UTF-16
  code unit below \<open>0x100\<close>, that is ASCII and the Latin-1 supplement.
\<close>

definition is_digit :: "char \<Rightarrow> bool" where
  "is_digit c = (c \<in> set ''0123456789'')"

definition is_upper :: "char \<Rightarrow> bool" where
  "is_upper c = (c \<in> set ''ABCDEFGHIJKLMNOPQRSTUVWXYZ'')"

definition is_lower :: "char \<Rightarrow> bool" where
  "is_lower c = (c \<in> set ''abcdefghijklmnopqrstuvwxyz'')"

text \<open>The character class \<^verbatim>\<open>[\dA-Za-z]\<close>.\<close>

definition is_alnum :: "char \<Rightarrow> bool" where
  "is_alnum c = (is_digit c \<or> is_upper c \<or> is_lower c)"

text \<open>
  What \<^verbatim>\<open>trim\<close> removes, below \<open>0x100\<close>: the ASCII white space and line ends, and
  the no-break space \<open>U+00A0\<close>.
\<close>

definition is_space :: "char \<Rightarrow> bool" where
  "is_space c =
     (c \<in> set [CHR '' '', CHR 0x09, CHR 0x0A, CHR 0x0B, CHR 0x0C, CHR 0x0D, CHR 0xA0])"

text \<open>
  \<^verbatim>\<open>toLowerCase\<close>, character by character: the letters \<^verbatim>\<open>A\<close> to \<^verbatim>\<open>Z\<close> and the capital
  letters \<open>U+00C0\<close> to \<open>U+00DE\<close> of Latin-1 (\<open>U+00D7\<close> is the multiplication sign) move
  up by \<open>0x20\<close>, and nothing else below \<open>0x100\<close> changes.
\<close>

definition lower_char :: "char \<Rightarrow> char" where
  "lower_char c =
     (case map_of (zip ''ABCDEFGHIJKLMNOPQRSTUVWXYZ'' ''abcdefghijklmnopqrstuvwxyz'') c of
        Some d \<Rightarrow> d
      | None \<Rightarrow>
          (case map_of
             (zip [CHR 0xC0, CHR 0xC1, CHR 0xC2, CHR 0xC3, CHR 0xC4, CHR 0xC5, CHR 0xC6, CHR 0xC7,
                   CHR 0xC8, CHR 0xC9, CHR 0xCA, CHR 0xCB, CHR 0xCC, CHR 0xCD, CHR 0xCE, CHR 0xCF,
                   CHR 0xD0, CHR 0xD1, CHR 0xD2, CHR 0xD3, CHR 0xD4, CHR 0xD5, CHR 0xD6,
                   CHR 0xD8, CHR 0xD9, CHR 0xDA, CHR 0xDB, CHR 0xDC, CHR 0xDD, CHR 0xDE]
                  [CHR 0xE0, CHR 0xE1, CHR 0xE2, CHR 0xE3, CHR 0xE4, CHR 0xE5, CHR 0xE6, CHR 0xE7,
                   CHR 0xE8, CHR 0xE9, CHR 0xEA, CHR 0xEB, CHR 0xEC, CHR 0xED, CHR 0xEE, CHR 0xEF,
                   CHR 0xF0, CHR 0xF1, CHR 0xF2, CHR 0xF3, CHR 0xF4, CHR 0xF5, CHR 0xF6,
                   CHR 0xF8, CHR 0xF9, CHR 0xFA, CHR 0xFB, CHR 0xFC, CHR 0xFD, CHR 0xFE]) c of
             Some d \<Rightarrow> d | None \<Rightarrow> c))"

text \<open>
  \<^verbatim>\<open>toUpperCase\<close> of one character. The program applies it to the first character of a
  fragment that \<^verbatim>\<open>split(/[^\dA-Za-z]/)\<close> leaves, which is an ASCII letter or digit.
\<close>

definition upper_char :: "char \<Rightarrow> char" where
  "upper_char c =
     (case map_of (zip ''abcdefghijklmnopqrstuvwxyz'' ''ABCDEFGHIJKLMNOPQRSTUVWXYZ'') c of
        Some d \<Rightarrow> d | None \<Rightarrow> c)"

definition js_toLowerCase :: "string \<Rightarrow> string" where
  "js_toLowerCase s = map lower_char s"

definition js_trim :: "string \<Rightarrow> string" where
  "js_trim s = rev (dropWhile is_space (rev (dropWhile is_space s)))"

text \<open>\<^verbatim>\<open>s.startsWith(p)\<close>.\<close>

fun js_startsWith :: "string \<Rightarrow> string \<Rightarrow> bool" where
  "js_startsWith s [] = True"
| "js_startsWith [] (p # ps) = False"
| "js_startsWith (c # cs) (p # ps) = (c = p \<and> js_startsWith cs ps)"

text \<open>
  The first occurrence of \<open>p\<close> in \<open>s\<close>, as \<^verbatim>\<open>indexOf\<close> finds it: the text in front of it
  and the text behind it.
\<close>

fun split_at_first :: "string \<Rightarrow> string \<Rightarrow> (string \<times> string) option" where
  "split_at_first [] p = (if p = [] then Some ([], []) else None)"
| "split_at_first (c # cs) p =
     (if js_startsWith (c # cs) p then Some ([], drop (length p) (c # cs))
      else (case split_at_first cs p of
              None \<Rightarrow> None
            | Some (pre, post) \<Rightarrow> Some (c # pre, post)))"

definition js_includes :: "string \<Rightarrow> string \<Rightarrow> bool" where
  "js_includes s p = (split_at_first s p \<noteq> None)"

text \<open>
  \<^verbatim>\<open>String.prototype.replace\<close> with a string pattern replaces the first occurrence only,
  and expands the replacement text first: \<^verbatim>\<open>$$\<close> is a dollar sign, \<^verbatim>\<open>$&\<close> the matched
  text, \<^verbatim>\<open>$`\<close> the text in front of the match and \<^verbatim>\<open>$'\<close> the text behind it. A string
  pattern has no capture groups, so every other \<^verbatim>\<open>$\<close> stands for itself.
\<close>

fun get_substitution :: "string \<Rightarrow> string \<Rightarrow> string \<Rightarrow> string \<Rightarrow> string" where
  "get_substitution matched pre post [] = []"
| "get_substitution matched pre post [c] = [c]"
| "get_substitution matched pre post (c # d # r) =
     (if c = CHR ''$'' \<and> d = CHR ''$'' then CHR ''$'' # get_substitution matched pre post r
      else if c = CHR ''$'' \<and> d = CHR ''&'' then matched @ get_substitution matched pre post r
      else if c = CHR ''$'' \<and> d = CHR 0x60 then pre @ get_substitution matched pre post r
      else if c = CHR ''$'' \<and> d = CHR 0x27 then post @ get_substitution matched pre post r
      else c # get_substitution matched pre post (d # r))"

definition js_replace :: "string \<Rightarrow> string \<Rightarrow> string \<Rightarrow> string" where
  "js_replace s p r =
     (case split_at_first s p of
        None \<Rightarrow> s
      | Some (pre, post) \<Rightarrow> pre @ get_substitution p pre post r @ post)"

text \<open>
  \<^verbatim>\<open>s.replace(/[class]+/g, y)\<close>: every maximal run of characters of the class
  becomes one \<open>y\<close>.
\<close>

fun replace_runs :: "(char \<Rightarrow> bool) \<Rightarrow> char \<Rightarrow> string \<Rightarrow> string" where
  "replace_runs P y [] = []"
| "replace_runs P y [c] = [if P c then y else c]"
| "replace_runs P y (c # d # r) =
     (if P c \<and> P d then replace_runs P y (d # r)
      else (if P c then y else c) # replace_runs P y (d # r))"

text \<open>\<^verbatim>\<open>s.match(/\d{3}/)?.[0]\<close>: the first three consecutive digits.\<close>

fun match_3digits :: "string \<Rightarrow> string option" where
  "match_3digits (a # b # c # r) =
     (if is_digit a \<and> is_digit b \<and> is_digit c then Some [a, b, c]
      else match_3digits (b # c # r))"
| "match_3digits s = None"

text \<open>\<^verbatim>\<open>parts.join(sep)\<close> on an array of strings.\<close>

fun js_join :: "string \<Rightarrow> string list \<Rightarrow> string" where
  "js_join sep [] = []"
| "js_join sep [x] = x"
| "js_join sep (x # y # r) = x @ sep @ js_join sep (y # r)"

text \<open>\<^verbatim>\<open>s.split(/[class]/)\<close>: the fragments between single separator characters.\<close>

fun js_split :: "(char \<Rightarrow> bool) \<Rightarrow> string \<Rightarrow> string list" where
  "js_split sep [] = [[]]"
| "js_split sep (c # cs) =
     (if sep c then [] # js_split sep cs
      else (case js_split sep cs of [] \<Rightarrow> [[c]] | f # fs \<Rightarrow> (c # f) # fs))"

text \<open>\<^verbatim>\<open>a > b\<close> on strings: lexicographic by character code.\<close>

fun js_gt :: "string \<Rightarrow> string \<Rightarrow> bool" where
  "js_gt [] b = False"
| "js_gt (x # xs) [] = True"
| "js_gt (x # xs) (y # ys) =
     (if x = y then js_gt xs ys else (of_char y :: nat) < of_char x)"

subsection \<open>Decimal numerals\<close>

definition digit_val :: "char \<Rightarrow> int" where
  "digit_val c =
     (case map_of (zip ''0123456789'' [0, 1, 2, 3, 4, 5, 6, 7, 8, 9]) c of
        Some d \<Rightarrow> d | None \<Rightarrow> 0)"

definition int_of_digits :: "string \<Rightarrow> int" where
  "int_of_digits s = foldl (\<lambda>acc c. 10 * acc + digit_val c) 0 s"

fun show_nat :: "nat \<Rightarrow> string" where
  "show_nat n =
     (if n < 10 then [''0123456789'' ! n]
      else show_nat (n div 10) @ [''0123456789'' ! (n mod 10)])"

declare show_nat.simps [simp del]

text \<open>
  A property key is an array index when it is the canonical decimal numeral of an integer
  below \<open>2\<^sup>3\<^sup>2 - 1\<close>. JavaScript enumerates such keys first, in ascending order, and every
  other key after them in the order of creation.
\<close>

definition array_index :: "string \<Rightarrow> int option" where
  "array_index k =
     (if k \<noteq> [] \<and> list_all is_digit k \<and> (k = ''0'' \<or> take 1 k \<noteq> ''0'')
         \<and> int_of_digits k < 4294967295
      then Some (int_of_digits k) else None)"

definition enumerated_before :: "string \<Rightarrow> string \<Rightarrow> bool" where
  "enumerated_before k k' =
     (case array_index k of
        None \<Rightarrow> False
      | Some i \<Rightarrow> (case array_index k' of None \<Rightarrow> True | Some j \<Rightarrow> i < j))"

section \<open>JavaScript values\<close>

text \<open>
  The values that \<^verbatim>\<open>JSON.parse\<close> returns. A number is carried as the text that
  \<^verbatim>\<open>String(n)\<close> gives for it: the program looks at numbers only through that text
  (\<^verbatim>\<open>toString\<close>, template literals, \<^verbatim>\<open>parseInt\<close>), except for arithmetic in floating
  point, which is a parameter of the model (\<open>env\<close> below). An object lists its own
  properties in the order JavaScript enumerates them, each key once. The value
  \<^verbatim>\<open>undefined\<close> is \<open>None\<close> of a \<^typ>\<open>'a option\<close>.

  No document holds a function, but the program can come by one: every plain object
  inherits the members of \<^verbatim>\<open>Object.prototype\<close>, and \<^verbatim>\<open>o[k]\<close> with a computed key
  \<open>k\<close> that is not an own key of \<open>o\<close> but the name of such a member gives that member.
  \<open>JBuiltin k\<close> is the member named \<open>k\<close>: a built-in function, or, for \<^verbatim>\<open>__proto__\<close>, the
  object \<^verbatim>\<open>Object.prototype\<close> itself.
\<close>

datatype json =
  JNull
  | JBool bool
  | JNum string
  | JStr string
  | JArr "json list"
  | JObj "(string \<times> json) list"
  | JBuiltin string

datatype error = TypeError

definition Object_prototype :: "string list" where
  "Object_prototype =
     [''constructor'', ''__defineGetter__'', ''__defineSetter__'', ''hasOwnProperty'',
      ''__lookupGetter__'', ''__lookupSetter__'', ''isPrototypeOf'', ''propertyIsEnumerable'',
      ''toString'', ''valueOf'', ''__proto__'', ''toLocaleString'']"

text \<open>\<^verbatim>\<open>if (v)\<close>: every value but \<^verbatim>\<open>null\<close>, \<^verbatim>\<open>false\<close>, \<^verbatim>\<open>0\<close>, \<^verbatim>\<open>NaN\<close> and \<^verbatim>\<open>""\<close>.\<close>

fun truthy :: "json \<Rightarrow> bool" where
  "truthy JNull = False"
| "truthy (JBool b) = b"
| "truthy (JNum s) = (s \<noteq> ''0'' \<and> s \<noteq> ''NaN'')"
| "truthy (JStr s) = (s \<noteq> [])"
| "truthy (JArr xs) = True"
| "truthy (JObj kvs) = True"
| "truthy (JBuiltin k) = True"

definition truthy_opt :: "json option \<Rightarrow> bool" where
  "truthy_opt v = (case v of None \<Rightarrow> False | Some x \<Rightarrow> truthy x)"

text \<open>\<^verbatim>\<open>Object.entries\<close> of an array: the elements under their indices.\<close>

definition indexed :: "'a list \<Rightarrow> (string \<times> 'a) list" where
  "indexed xs = zip (map show_nat [0 ..< length xs]) xs"

text \<open>
  The own enumerable properties of a value, as \<^verbatim>\<open>for ... in\<close> and
  \<^verbatim>\<open>Object.entries\<close> list them. A string has its characters, a number or boolean none.
\<close>

fun own_entries :: "json \<Rightarrow> (string \<times> json) list" where
  "own_entries (JObj kvs) = kvs"
| "own_entries (JArr xs) = indexed xs"
| "own_entries (JStr s) = indexed (map (\<lambda>c. JStr [c]) s)"
| "own_entries v = []"

text \<open>
  \<^verbatim>\<open>o.name\<close> for a value \<open>o\<close> that is not \<^verbatim>\<open>null\<close> and one of the names the program
  writes out (\<^verbatim>\<open>$value\<close>, \<^verbatim>\<open>modes\<close>, \<^verbatim>\<open>id\<close>, \<^verbatim>\<open>property\<close> and so on), none of which is
  a member of a prototype: the value is an own property or \<^verbatim>\<open>undefined\<close>. Reading a
  property of \<^verbatim>\<open>null\<close> raises, which the callers below write out.
\<close>

definition get :: "json \<Rightarrow> string \<Rightarrow> json option" where
  "get obj k =
     (case map_of (own_entries obj) k of
        Some v \<Rightarrow> Some v
      | None \<Rightarrow>
          (case obj of
             JArr xs \<Rightarrow> if k = ''length'' then Some (JNum (show_nat (length xs))) else None
           | JStr s \<Rightarrow> if k = ''length'' then Some (JNum (show_nat (length s))) else None
           | _ \<Rightarrow> None))"

text \<open>
  \<^verbatim>\<open>k in o\<close> for such a name (the program asks for \<^verbatim>\<open>$value\<close>), which raises unless
  \<open>o\<close> is an object, an array or a function.
\<close>

definition has_property :: "string \<Rightarrow> json \<Rightarrow> error + bool" where
  "has_property k obj =
     (case obj of
        JObj kvs \<Rightarrow> Inr (map_of kvs k \<noteq> None)
      | JArr xs \<Rightarrow> Inr (get obj k \<noteq> None)
      | JBuiltin b \<Rightarrow> Inr False
      | _ \<Rightarrow> Inl TypeError)"

text \<open>
  \<^verbatim>\<open>String(v)\<close>, which is also what a template literal and, for every value but
  \<^verbatim>\<open>null\<close>, \<^verbatim>\<open>v.toString()\<close> give. An array joins its elements with commas, an empty
  text standing for \<^verbatim>\<open>null\<close>. An object is one that inherits its \<^verbatim>\<open>toString\<close>. A
  built-in function prints as \<^verbatim>\<open>function name() { [native code] }\<close>, where the name of
  \<^verbatim>\<open>Object.prototype.constructor\<close> is \<^verbatim>\<open>Object\<close>.
\<close>

fun js_to_string :: "json \<Rightarrow> string" where
  "js_to_string JNull = ''null''"
| "js_to_string (JBool b) = (if b then ''true'' else ''false'')"
| "js_to_string (JNum s) = s"
| "js_to_string (JStr s) = s"
| "js_to_string (JArr xs) =
     js_join '','' (map (\<lambda>x. if x = JNull then [] else js_to_string x) xs)"
| "js_to_string (JObj kvs) = ''[object Object]''"
| "js_to_string (JBuiltin k) =
     (if k = ''__proto__'' then ''[object Object]''
      else ''function '' @ (if k = ''constructor'' then ''Object'' else k)
             @ ''() { [native code] }'')"

definition to_string_opt :: "json option \<Rightarrow> string" where
  "to_string_opt v = (case v of None \<Rightarrow> ''undefined'' | Some x \<Rightarrow> js_to_string x)"

text \<open>
  Objects the program builds itself (\<^verbatim>\<open>definitions\<close>, the lookup table, the collection
  table) are association lists in enumeration order. \<^verbatim>\<open>o[k] = v\<close> overwrites an existing
  key in place and puts a new key where the enumeration order wants it.
\<close>

fun insert_key :: "(string \<times> 'a) list \<Rightarrow> string \<Rightarrow> 'a \<Rightarrow> (string \<times> 'a) list" where
  "insert_key [] k v = [(k, v)]"
| "insert_key ((k', v') # kvs) k v =
     (if enumerated_before k k' then (k, v) # (k', v') # kvs
      else (k', v') # insert_key kvs k v)"

definition obj_set :: "(string \<times> 'a) list \<Rightarrow> string \<Rightarrow> 'a \<Rightarrow> (string \<times> 'a) list" where
  "obj_set kvs k v =
     (if map_of kvs k = None then insert_key kvs k v
      else map (\<lambda>(k', v'). if k' = k then (k', v) else (k', v')) kvs)"

text \<open>
  \<^verbatim>\<open>o[k]\<close> for a plain object \<open>o\<close> and a computed key \<open>k\<close>: the own property, or else the
  member of \<^verbatim>\<open>Object.prototype\<close> of that name, or else \<^verbatim>\<open>undefined\<close>.
\<close>

datatype 'a slot = Own 'a | Inherited string | Missing

definition js_index :: "(string \<times> 'a) list \<Rightarrow> string \<Rightarrow> 'a slot" where
  "js_index kvs k =
     (case map_of kvs k of
        Some v \<Rightarrow> Own v
      | None \<Rightarrow> if k \<in> set Object_prototype then Inherited k else Missing)"

definition js_member :: "(string \<times> json) list \<Rightarrow> string \<Rightarrow> json option" where
  "js_member kvs k =
     (case js_index kvs k of
        Own v \<Rightarrow> Some v
      | Inherited b \<Rightarrow> Some (JBuiltin b)
      | Missing \<Rightarrow> None)"

section \<open>Configuration\<close>

text \<open>
  \<^verbatim>\<open>KEY_PREFIX_COLLECTION\<close> is imported from \<^verbatim>\<open>fromFigma.mjs\<close>, and
  \<^verbatim>\<open>Math.round(value * 10000) / 10000\<close> and \<^verbatim>\<open>parseInt(value) / 16\<close> are arithmetic in
  floating point; they are parameters of the model. \<open>round4 v\<close> is the text of the number
  that the rounding of \<open>v\<close> gives, and \<open>quotient16 n\<close> the text that JavaScript prints for
  the sixteenth of the number nearest to the integer \<open>n\<close>; the model asks for it only
  where that text is not the exact quotient.
\<close>

record env =
  KEY_PREFIX_COLLECTION :: string
  round4 :: "json \<Rightarrow> string"
  quotient16 :: "int \<Rightarrow> string"

definition CONVERT_TO_REM :: bool where
  "CONVERT_TO_REM = True"

definition NAMESPACES :: "string list" where
  "NAMESPACES = [''com.figma.wds'', ''org.wds'']"

definition TOKEN_PREFIX :: string where
  "TOKEN_PREFIX = ''wds-''"

text \<open>The \<^verbatim>\<open>settings\<close> of a collection; an absent field is \<open>None\<close>.\<close>

record settings =
  s_prefix :: string
  s_convertPixelToRem :: "bool option"
  s_replacements :: "(string \<times> string) list option"
  s_colorSchemes :: "string list option"
  s_colorSchemesDark :: "string list option"
  s_colorSchemeLightRemove :: "string option"
  s_colorSchemeDarkRemove :: "string option"

definition plain_settings :: "string \<Rightarrow> settings" where
  "plain_settings p =
     \<lparr>s_prefix = p, s_convertPixelToRem = None, s_replacements = None,
      s_colorSchemes = None, s_colorSchemesDark = None,
      s_colorSchemeLightRemove = None, s_colorSchemeDarkRemove = None\<rparr>"


section \<open>Converting a token value to CSS\<close>

text \<open>The test \<^verbatim>\<open>/^-?\d+(\.\d+)?$/\<close>.\<close>

definition valueIsDigits :: "string \<Rightarrow> bool" where
  "valueIsDigits s =
     (let t = (if take 1 s = ''-'' then drop 1 s else s);
          rest = dropWhile is_digit t
      in takeWhile is_digit t \<noteq> [] \<and>
         (rest = [] \<or> (take 1 rest = ''.'' \<and> drop 1 rest \<noteq> [] \<and> list_all is_digit (drop 1 rest))))"

text \<open>
  \<^verbatim>\<open>parseInt\<close> on a text that passed \<open>valueIsDigits\<close>: the sign and the digits in front of
  the decimal point.
\<close>

definition parseInt :: "string \<Rightarrow> int" where
  "parseInt s =
     (if take 1 s = ''-'' then - int_of_digits (takeWhile is_digit (drop 1 s))
      else int_of_digits (takeWhile is_digit s))"

text \<open>
  The text of \<open>n / 16\<close> for an integer \<open>n\<close>. The quotient is a multiple of \<open>0.0625\<close>, so it
  has at most four decimals, and \<^verbatim>\<open>String\<close> prints them all as long as the number has at
  most 15 significant digits (\<open>\<bar>n\<bar> < 16 * 10\<^sup>1\<^sup>1\<close>). From there on the doubles round, and
  the text is the parameter \<open>quotient16\<close>.
\<close>

definition strip_zeros :: "string \<Rightarrow> string" where
  "strip_zeros s = rev (dropWhile (\<lambda>c. c = CHR ''0'') (rev s))"

definition div16_to_string :: "env \<Rightarrow> int \<Rightarrow> string" where
  "div16_to_string e n =
     (if \<bar>n\<bar> < 1600000000000 then
        let a = nat \<bar>n\<bar>; r = a mod 16; f = show_nat (r * 625)
        in (if n < 0 then ''-'' else '''') @ show_nat (a div 16) @
           (if r = 0 then '''' else ''.'' @ strip_zeros (replicate (4 - length f) (CHR ''0'') @ f))
      else quotient16 e n)"

text \<open>The chain \<^verbatim>\<open>.replace(/[. ]/g, "-").replace(/^\{/, "").replace(/\}$/, "")\<close>.\<close>

definition hyphenate :: "string \<Rightarrow> string" where
  "hyphenate s = map (\<lambda>c. if c = CHR ''.'' \<or> c = CHR '' '' then CHR ''-'' else c) s"

definition strip_open :: "string \<Rightarrow> string" where
  "strip_open s = (if take 1 s = ''{'' then drop 1 s else s)"

definition strip_close :: "string \<Rightarrow> string" where
  "strip_close s = (if s \<noteq> [] \<and> last s = CHR ''}'' then butlast s else s)"

definition quoted :: "string \<Rightarrow> string" where
  "quoted s = [CHR 0x22] @ s @ [CHR 0x22]"

definition valueToCSS ::
    "env \<Rightarrow> string \<Rightarrow> json \<Rightarrow> string \<Rightarrow> bool \<Rightarrow> string \<Rightarrow> error + json" where
  "valueToCSS e property v definitionsKey convertPixelToRem prefix =
     (if v = JNull then Inl TypeError
      else if take 1 (js_to_string v) = ''{'' then
        (case v of
           JStr s \<Rightarrow>
             Inr (JStr (''var(--'' @
               strip_close (strip_open (hyphenate (js_replace s definitionsKey prefix))) @ '')''))
         | _ \<Rightarrow> Inl TypeError)
      else
        let isRatio = js_includes property ''ratio-'';
            isNumeric = (valueIsDigits (js_to_string v)
               \<and> \<not> (js_includes property ''weight'' \<or> js_includes property ''ratio-'')
               \<and> \<not> isRatio)
        in if isNumeric then
             Inr (JStr (if convertPixelToRem
                        then div16_to_string e (parseInt (js_to_string v)) @ ''rem''
                        else js_to_string v @ ''px''))
           else if isRatio then Inr (JNum (round4 e v))
           else if js_includes property ''family-mono'' then
             Inr (JStr (quoted (js_to_string v) @ '', monospace''))
           else if js_includes property ''family-sans'' then
             Inr (JStr (quoted (js_to_string v) @ '', sans-serif''))
           else if js_includes property ''family-serif'' then
             Inr (JStr (quoted (js_to_string v) @ '', serif''))
           else Inr v)"

section \<open>Traversing a collection\<close>

text \<open>
  A flat definition. \<open>d_value\<close> is the field \<^verbatim>\<open>value\<close> and \<open>d_type\<close> the field
  \<^verbatim>\<open>type\<close>; \<open>d_figmaId\<close> is \<open>None\<close> when the extension data has no \<^verbatim>\<open>figmaId\<close>.
\<close>

record flatDef =
  d_property :: string
  d_propertyName :: string
  d_figmaId :: "json option"
  d_description :: json
  d_value :: json
  d_type :: json

type_synonym definitions = "(string \<times> flatDef list) list"

definition property_of :: "string list \<Rightarrow> string" where
  "property_of keys = ''--'' @ js_join ''-'' keys"

definition capitalize :: "string \<Rightarrow> string" where
  "capitalize k = (case k of [] \<Rightarrow> [] | c # cs \<Rightarrow> upper_char c # cs)"

definition propertyNameFull :: "string list \<Rightarrow> string" where
  "propertyNameFull keys =
     concat (map (\<lambda>key. concat (map capitalize (js_split (\<lambda>c. \<not> is_alnum c) key))) keys)"

definition propertyName_of :: "string list \<Rightarrow> string" where
  "propertyName_of keys =
     (case propertyNameFull keys of [] \<Rightarrow> [] | c # cs \<Rightarrow> lower_char c # cs)"

text \<open>
  \<^verbatim>\<open>valueWithReplacements\<close>: every pair of the replacement table is applied once, in the
  table's order, then the text is lowercased. A value that is not a string is left alone.
\<close>

definition valueWithReplacements :: "(string \<times> string) list \<Rightarrow> json \<Rightarrow> json" where
  "valueWithReplacements replacements v =
     (case v of
        JStr s \<Rightarrow>
          JStr (js_toLowerCase
            (fold (\<lambda>(replacement, replaceValue) acc. js_replace acc replacement replaceValue)
               replacements s))
      | _ \<Rightarrow> v)"

text \<open>\<^verbatim>\<open>getNamespaceData\<close>; the result \<^verbatim>\<open>null\<close> is \<open>None\<close>.\<close>

fun first_namespace :: "json \<Rightarrow> string list \<Rightarrow> json option" where
  "first_namespace extensions [] = None"
| "first_namespace extensions (namespace # rest) =
     (if truthy_opt (get extensions namespace) then get extensions namespace
      else first_namespace extensions rest)"

definition getNamespaceData :: "json \<Rightarrow> json option" where
  "getNamespaceData extensions =
     (if \<not> truthy extensions then None else first_namespace extensions NAMESPACES)"

text \<open>
  \<^verbatim>\<open>"$extensions" in object ? getNamespaceData(object.$extensions) : null\<close>, the
  extension data of a leaf.
\<close>

definition extensionData_of :: "json \<Rightarrow> json option" where
  "extensionData_of object =
     (case get object ''$extensions'' of
        None \<Rightarrow> None
      | Some extensions \<Rightarrow> getNamespaceData extensions)"

text \<open>\<^verbatim>\<open>a || b\<close> where \<open>a\<close> may be \<^verbatim>\<open>undefined\<close>.\<close>

definition or_else :: "json option \<Rightarrow> json \<Rightarrow> json" where
  "or_else a b = (case a of Some x \<Rightarrow> if truthy x then x else b | None \<Rightarrow> b)"

text \<open>
  \<^verbatim>\<open>definitions[mode] = definitions[mode] || []; definitions[mode].push(d)\<close>. For a mode
  that is not an own key but the name of a member of \<^verbatim>\<open>Object.prototype\<close>,
  \<^verbatim>\<open>definitions[mode]\<close> is that member, which has no \<^verbatim>\<open>push\<close>: the call raises.
\<close>

definition push_definition :: "definitions \<Rightarrow> string \<Rightarrow> flatDef \<Rightarrow> error + definitions" where
  "push_definition definitions mode d =
     (case js_index definitions mode of
        Own ds \<Rightarrow> Inr (obj_set definitions mode (ds @ [d]))
      | Inherited b \<Rightarrow> Inl TypeError
      | Missing \<Rightarrow> Inr (obj_set definitions mode [d]))"

text \<open>
  The branch \<^verbatim>\<open>"$value" in object\<close> of \<^verbatim>\<open>traverse\<close>: one definition per mode of the
  extension data, or one under \<^verbatim>\<open>default\<close>. \<open>typ\<close> is the variable \<^verbatim>\<open>type\<close>.
\<close>

definition traverse_leaf ::
    "env \<Rightarrow> definitions \<Rightarrow> json \<Rightarrow> (string \<times> string) list \<Rightarrow> string \<Rightarrow> string \<Rightarrow> bool
      \<Rightarrow> json \<Rightarrow> string list \<Rightarrow> error + definitions" where
  "traverse_leaf e definitions object replacements definitionsKey prefix convertPixelToRem
       typ keys =
     (let extensionData = extensionData_of object;
          modes =
            (case extensionData of
               None \<Rightarrow> None
             | Some ext \<Rightarrow> if truthy_opt (get ext ''modes'') then get ext ''modes'' else None);
          description = or_else (get object ''$description'') (JStr '''')
      in case modes of
           Some ms \<Rightarrow>
             fold (\<lambda>(mode, raw) acc.
                    case acc of
                      Inl err \<Rightarrow> Inl err
                    | Inr defs \<Rightarrow>
                        (case valueToCSS e (property_of keys) raw definitionsKey
                                convertPixelToRem prefix of
                           Inl err \<Rightarrow> Inl err
                         | Inr css \<Rightarrow>
                             push_definition defs mode
                               \<lparr>d_property = property_of keys,
                                d_propertyName = propertyName_of keys,
                                d_figmaId =
                                  (case extensionData of
                                     None \<Rightarrow> None | Some ext \<Rightarrow> get ext ''figmaId''),
                                d_description = description,
                                d_value = valueWithReplacements replacements css,
                                d_type = typ\<rparr>))
                  (own_entries ms) (Inr definitions)
         | None \<Rightarrow>
             (case get object ''$value'' of
                None \<Rightarrow> Inl TypeError
              | Some v \<Rightarrow>
                  (case valueToCSS e (property_of keys) v definitionsKey convertPixelToRem '''' of
                     Inl err \<Rightarrow> Inl err
                   | Inr css \<Rightarrow>
                       push_definition definitions ''default''
                         \<lparr>d_property = property_of keys,
                          d_propertyName = propertyName_of keys,
                          d_figmaId =
                            (case extensionData of
                               None \<Rightarrow> Some (JStr ''UNDEFINED'')
                             | Some ext \<Rightarrow> get ext ''figmaId''),
                          d_description = description,
                          d_value = valueWithReplacements replacements css,
                          d_type = typ\<rparr>)))"

lemma size_own_entries:
  "has_property k obj = Inr b \<Longrightarrow> (key, v) \<in> set (own_entries obj) \<Longrightarrow> size v < size obj"
proof (cases obj)
  case (JObj kvs)
  assume "(key, v) \<in> set (own_entries obj)"
  with JObj have "(key, v) \<in> set kvs" by simp
  then have "size v < Suc (size_list (size_prod (\<lambda>_. 0) size) kvs)"
    by (induction kvs) auto
  with JObj show ?thesis by simp
next
  case (JArr xs)
  assume "(key, v) \<in> set (own_entries obj)"
  with JArr have "v \<in> set xs" by (auto simp: indexed_def dest: set_zip_rightD)
  then have "size v < Suc (size_list size xs)"
    by (induction xs) auto
  with JArr show ?thesis by simp
qed (simp_all add: has_property_def)

text \<open>
  \<^verbatim>\<open>traverse\<close>. Reading \<^verbatim>\<open>object.$type\<close> of \<^verbatim>\<open>null\<close> and asking
  \<^verbatim>\<open>"$value" in object\<close> of a string, number or boolean both raise a \<^verbatim>\<open>TypeError\<close>.
  A built-in has no \<^verbatim>\<open>$value\<close> and no enumerable property: traversing it adds nothing.
\<close>

function traverse ::
    "env \<Rightarrow> definitions \<Rightarrow> json \<Rightarrow> (string \<times> string) list \<Rightarrow> string \<Rightarrow> string \<Rightarrow> bool
      \<Rightarrow> json \<Rightarrow> string list \<Rightarrow> error + definitions" where
  "traverse e definitions object replacements definitionsKey prefix convertPixelToRem
       currentType keys =
     (case has_property ''$value'' object of
        Inl err \<Rightarrow> Inl err
      | Inr leaf \<Rightarrow>
          if leaf then
            traverse_leaf e definitions object replacements definitionsKey prefix
              convertPixelToRem (or_else (get object ''$type'') currentType) keys
          else
            fold (\<lambda>(key, child) acc.
                   case acc of
                     Inl err \<Rightarrow> Inl err
                   | Inr defs \<Rightarrow>
                       if take 1 key \<noteq> ''$'' then
                         traverse e defs child replacements definitionsKey prefix
                           convertPixelToRem (or_else (get object ''$type'') currentType)
                           (keys @ [key])
                       else Inr defs)
                 (own_entries object) (Inr definitions))"
  by pat_completeness auto
termination
  by (relation "measure (\<lambda>(e, definitions, object, rest). size object)")
     (auto dest: size_own_entries)

declare traverse.simps [simp del]

text \<open>
  \<^verbatim>\<open>processCollection\<close>. The token document \<open>data\<close> is an object (\<^verbatim>\<open>Object<any>\<close> in
  the source, with the collections at the root), given by its own properties; the key
  \<open>definitionsKey\<close> is computed.
\<close>

definition processCollection ::
    "env \<Rightarrow> (string \<times> json) list \<Rightarrow> settings \<Rightarrow> string \<Rightarrow> error + definitions" where
  "processCollection e data settings definitionsKey =
     (let replacements = (case s_replacements settings of None \<Rightarrow> [] | Some r \<Rightarrow> r);
          convertPixelToRem =
            (case s_convertPixelToRem settings of None \<Rightarrow> CONVERT_TO_REM | Some c \<Rightarrow> c);
          fullPrefix = TOKEN_PREFIX @ s_prefix settings
      in case js_member data definitionsKey of
           None \<Rightarrow> Inl TypeError
         | Some tree \<Rightarrow>
             traverse e [] tree replacements definitionsKey fullPrefix convertPixelToRem
               (JStr '''') (if fullPrefix \<noteq> [] then [fullPrefix] else []))"

section \<open>Emitting CSS\<close>

text \<open>
  \<^verbatim>\<open>lines.sort((a, b) => (a.property > b.property ? 1 : -1))\<close>. For definitions with
  different property names every sorting algorithm gives the same list. For equal names
  the comparator answers \<^verbatim>\<open>-1\<close> both ways; the merge sort of node asks it about a later
  element and an earlier one, in this order, and so puts the later one first. The model
  is the insertion sort that does the same: a definition goes in front of the first one
  whose name is not smaller.
\<close>

fun insert_sorted :: "flatDef \<Rightarrow> flatDef list \<Rightarrow> flatDef list" where
  "insert_sorted l [] = [l]"
| "insert_sorted l (m # ms) =
     (if js_gt (d_property l) (d_property m) then m # insert_sorted l ms else l # m # ms)"

definition sort_by_property :: "flatDef list \<Rightarrow> flatDef list" where
  "sort_by_property ls = foldl (\<lambda>acc l. insert_sorted l acc) [] ls"

text \<open>
  \<^verbatim>\<open>drawCSSPropLines\<close>; an absent list (\<open>None\<close>) takes the default \<^verbatim>\<open>[]\<close>. The
  emitter reads \<^verbatim>\<open>definitions[scheme]\<close> for the scheme names of the settings, which are
  the names written in \<^verbatim>\<open>COLLECTION_DATA\<close> (\<^verbatim>\<open>wds_light\<close>, \<^verbatim>\<open>wds_dark\<close>), and
  \<^verbatim>\<open>definitions[k]\<close> for the own keys \<open>k\<close>.
\<close>

definition drawCSSPropLines :: "flatDef list option \<Rightarrow> string \<Rightarrow> string" where
  "drawCSSPropLines lines indent =
     js_join [CHR '';'', CHR 0x0A]
       (map (\<lambda>l. indent @ d_property l @ '': '' @ js_to_string (d_value l))
          (sort_by_property (case lines of None \<Rightarrow> [] | Some ls \<Rightarrow> ls)))
     @ '';''"

text \<open>\<^verbatim>\<open>scheme.replace(remove, "")\<close>, where an absent setting is the text \<^verbatim>\<open>undefined\<close>.\<close>

definition strip_scheme :: "string \<Rightarrow> string option \<Rightarrow> string" where
  "strip_scheme scheme remove =
     js_replace scheme (case remove of None \<Rightarrow> ''undefined'' | Some r \<Rightarrow> r) ''''"

definition fileStringCSSFromProcessedObject ::
    "definitions \<Rightarrow> settings \<Rightarrow> string \<Rightarrow> string list" where
  "fileStringCSSFromProcessedObject definitions settings key =
     (case s_colorSchemes settings of
        Some schemes \<Rightarrow>
          concat (map (\<lambda>(i, scheme).
              (if i = 0 then [''/* '' @ key @ '': '' @ scheme @ '' (default) */'', '':root {'']
               else [''/* '' @ key @ '': '' @ scheme @ '' */'',
                     ''.'' @ TOKEN_PREFIX @ ''scheme-'' @ key @ ''-'' @
                       strip_scheme scheme (s_colorSchemeLightRemove settings) @ '' {''])
              @ [drawCSSPropLines (map_of definitions scheme) ''  '', ''}''])
            (enumerate (0::nat) schemes))
          @ (case s_colorSchemesDark settings of
               Some schemesDark \<Rightarrow>
                 [''@media (prefers-color-scheme: dark) {'']
                 @ concat (map (\<lambda>(i, scheme).
                     (if i = 0 then
                        [''  /* '' @ key @ '': '' @ scheme @ '' (default) */'', ''  :root {'']
                      else [''  /* '' @ key @ '': '' @ scheme @ '' */'',
                            ''  .'' @ TOKEN_PREFIX @ ''scheme-'' @ key @ ''-'' @
                              strip_scheme scheme (s_colorSchemeDarkRemove settings) @ '' {''])
                     @ [drawCSSPropLines (map_of definitions scheme) ''    '', ''  }''])
                   (enumerate (0::nat) schemesDark))
                 @ [''}'']
             | None \<Rightarrow> [])
      | None \<Rightarrow>
          concat (map (\<lambda>(i, (k, ls)).
              (if i = 0 then [''/* '' @ key @ '': '' @ k @ '' (default) */'', '':root {'']
               else [''/* '' @ key @ '': '' @ k @ '' */'',
                     ''.'' @ TOKEN_PREFIX @ ''theme-'' @ key @ ''-'' @ k @ '' {''])
              @ [drawCSSPropLines (Some ls) ''  '', ''}''])
            (enumerate (0::nat) definitions)))"

text \<open>
  \<^verbatim>\<open>Array.prototype.sort\<close> works in place: after the CSS of a collection is written,
  the list of every mode that was drawn is sorted.
\<close>

definition drawn_modes :: "definitions \<Rightarrow> settings \<Rightarrow> string list" where
  "drawn_modes definitions settings =
     (case s_colorSchemes settings of
        Some schemes \<Rightarrow>
          schemes @ (case s_colorSchemesDark settings of Some dark \<Rightarrow> dark | None \<Rightarrow> [])
      | None \<Rightarrow> map fst definitions)"

definition definitions_after_drawing :: "definitions \<Rightarrow> settings \<Rightarrow> definitions" where
  "definitions_after_drawing definitions settings =
     map (\<lambda>(k, ls). if k \<in> set (drawn_modes definitions settings)
                     then (k, sort_by_property ls) else (k, ls)) definitions"

text \<open>
  \<^verbatim>\<open>drawVariableSyntaxAndDescription\<close>. The default \<^verbatim>\<open>{ default: [] }\<close> is for an
  absent argument only; for an object without modes, \<^verbatim>\<open>lines\<close> is \<^verbatim>\<open>undefined\<close> and
  \<^verbatim>\<open>lines.map\<close> raises. The plain \<^verbatim>\<open>sort()\<close> orders the texts ascending.
\<close>

fun insert_text :: "string \<Rightarrow> string list \<Rightarrow> string list" where
  "insert_text s [] = [s]"
| "insert_text s (t # ts) = (if js_gt t s then s # t # ts else t # insert_text s ts)"

definition sort_texts :: "string list \<Rightarrow> string list" where
  "sort_texts ss = foldl (\<lambda>acc s. insert_text s acc) [] ss"

definition drawVariableSyntaxAndDescription :: "definitions \<Rightarrow> error + string" where
  "drawVariableSyntaxAndDescription linesObject =
     (case linesObject of
        [] \<Rightarrow> Inl TypeError
      | (k, lines) # rest \<Rightarrow>
          Inr (js_join [CHR '','', CHR 0x0A]
            (sort_texts (map (\<lambda>l. ''  ['' @ quoted (to_string_opt (d_figmaId l)) @ '', ''
                 @ quoted (''var('' @ d_property l @ '')'') @ '', ''
                 @ quoted (js_to_string (if truthy (d_description l) then d_description l
                                         else JStr '''')) @ '']'') lines))))"

section \<open>Processing the token document\<close>

text \<open>
  \<^verbatim>\<open>COLLECTION_DATA\<close> is a table the run itself extends, so it is an argument here
  (\<open>config\<close>) and a result. \<^verbatim>\<open>console.warn\<close> appends to a list of warnings.
\<close>

definition added_warning :: "string \<Rightarrow> string" where
  "added_warning normalizedKey =
     ''Added default token collection settings for '' @ quoted normalizedKey @
     ''. Consider configuring it explicitly if special handling is needed.''"

definition skipping_warning :: "string \<Rightarrow> string" where
  "skipping_warning definitionsKey =
     ''Skipping token collection '' @ quoted definitionsKey @ '' - not found in tokens.json''"

definition fallback_settings :: "string \<Rightarrow> settings" where
  "fallback_settings normalizedKey =
     (plain_settings (map (\<lambda>c. if c = CHR ''_'' then CHR ''-'' else c) normalizedKey))
       \<lparr>s_convertPixelToRem := Some True\<rparr>"

text \<open>
  The body of the \<^verbatim>\<open>forEach\<close> in \<^verbatim>\<open>ensureCollectionSettingsExist\<close>. The test
  \<^verbatim>\<open>COLLECTION_DATA[normalizedKey]\<close> also succeeds for the name of a member of
  \<^verbatim>\<open>Object.prototype\<close>.
\<close>

definition ensure_key ::
    "env \<Rightarrow> string \<Rightarrow> (string \<times> settings) list \<times> string list
      \<Rightarrow> (string \<times> settings) list \<times> string list" where
  "ensure_key e definitionsKey st =
     (let normalizedKey = drop (length (KEY_PREFIX_COLLECTION e)) definitionsKey
      in if \<not> js_startsWith definitionsKey (KEY_PREFIX_COLLECTION e) then st
         else if normalizedKey = [] then st
         else if js_index (fst st) normalizedKey \<noteq> Missing then st
         else (obj_set (fst st) normalizedKey (fallback_settings normalizedKey),
               snd st @ [added_warning normalizedKey]))"

text \<open>\<^verbatim>\<open>ensureCollectionSettingsExist\<close>: the table and the warnings afterwards.\<close>

definition ensureCollectionSettingsExist ::
    "env \<Rightarrow> (string \<times> settings) list \<Rightarrow> (string \<times> json) list
      \<Rightarrow> (string \<times> settings) list \<times> string list" where
  "ensureCollectionSettingsExist e config data = fold (ensure_key e) (map fst data) (config, [])"

record collection =
  c_settings :: settings
  c_definitions :: definitions

type_synonym processed = "(string \<times> collection) list"

text \<open>
  The body of the first loop of \<^verbatim>\<open>processTokenJSON\<close>. The state is the warnings so far
  and either the error that ended the run or the collections kept so far.
\<close>

definition process_key ::
    "env \<Rightarrow> (string \<times> json) list \<Rightarrow> string \<times> settings
      \<Rightarrow> string list \<times> (error + processed) \<Rightarrow> string list \<times> (error + processed)" where
  "process_key e data entry st =
     (case snd st of
        Inl err \<Rightarrow> st
      | Inr kept \<Rightarrow>
          let definitionsKey = KEY_PREFIX_COLLECTION e @ fst entry
          in if \<not> truthy_opt (js_member data definitionsKey) then
               (fst st @ [skipping_warning definitionsKey], Inr kept)
             else
               (case processCollection e data (snd entry) definitionsKey of
                  Inl err \<Rightarrow> (fst st, Inl err)
                | Inr definitions \<Rightarrow>
                    (fst st,
                     Inr (kept @ [(fst entry,
                            \<lparr>c_settings = snd entry, c_definitions = definitions\<rparr>)]))))"

definition file_header :: "string list" where
  "file_header =
     [''/*'', '' * This file is automatically generated by scripts/tokens/app.mjs!'', '' */'']"

text \<open>The texts that \<^verbatim>\<open>variableSyntaxAndDescriptionString\<close> sorts and joins.\<close>

fun snippet_parts :: "processed \<Rightarrow> error + string list" where
  "snippet_parts [] = Inr []"
| "snippet_parts ((key, c) # rest) =
     (case drawVariableSyntaxAndDescription (c_definitions c) of
        Inl err \<Rightarrow> Inl err
      | Inr part \<Rightarrow>
          (case snippet_parts rest of Inl err \<Rightarrow> Inl err | Inr parts \<Rightarrow> Inr (part # parts)))"

record tokenResult =
  r_processed :: processed
  r_themeCSS :: "string list"
  r_config :: "(string \<times> settings) list"

text \<open>
  \<^verbatim>\<open>processTokenJSON\<close>: the warnings printed, and the error raised or the result. The
  collections returned hold the definitions as the drawing left them.
\<close>

definition processTokenJSON ::
    "env \<Rightarrow> (string \<times> settings) list \<Rightarrow> (string \<times> json) list
      \<Rightarrow> string list \<times> (error + tokenResult)" where
  "processTokenJSON e config data =
     (case ensureCollectionSettingsExist e config data of
        (config', warnings) \<Rightarrow>
          (case fold (process_key e data) config' (warnings, Inr []) of
             (warnings', Inl err) \<Rightarrow> (warnings', Inl err)
           | (warnings', Inr kept) \<Rightarrow>
               (case snippet_parts kept of
                  Inl err \<Rightarrow> (warnings', Inl err)
                | Inr parts \<Rightarrow>
                    (warnings',
                     Inr \<lparr>r_processed =
                            map (\<lambda>(key, c). (key, c\<lparr>c_definitions :=
                                   definitions_after_drawing (c_definitions c) (c_settings c)\<rparr>))
                              kept,
                          r_themeCSS = file_header @
                            concat (map (\<lambda>(key, c).
                              fileStringCSSFromProcessedObject (c_definitions c) (c_settings c) key)
                              kept),
                          r_config = config'\<rparr>))))"

section \<open>The variable lookup table\<close>

text \<open>
  The \<^verbatim>\<open>reduce\<close> of \<^verbatim>\<open>initialize\<close>: every definition of every mode of every collection
  is written under its \<^verbatim>\<open>figmaId\<close>, a later one replacing an earlier one. The table is
  built by the assignments \<^verbatim>\<open>into[k] = item\<close> alone, and for the key \<^verbatim>\<open>__proto__\<close> such
  an assignment adds no property: it makes \<open>item\<close> the prototype of the table. So the
  entry of the association list under \<^verbatim>\<open>__proto__\<close>, if there is one, stands for the
  prototype of the table, and every other entry for an own property.
\<close>

definition all_definitions :: "processed \<Rightarrow> flatDef list" where
  "all_definitions kept = concat (map (\<lambda>(key, c). concat (map snd (c_definitions c))) kept)"

definition lookup_key :: "flatDef \<Rightarrow> string" where
  "lookup_key item = to_string_opt (d_figmaId item)"

definition build_lookups :: "flatDef list \<Rightarrow> (string \<times> flatDef) list" where
  "build_lookups items = fold (\<lambda>item into. obj_set into (lookup_key item) item) items []"

definition variableLookups :: "processed \<Rightarrow> (string \<times> flatDef) list" where
  "variableLookups kept = build_lookups (all_definitions kept)"

text \<open>\<^verbatim>\<open>Object.values(variablesLookup)\<close>: the own properties.\<close>

definition variableLookupValues :: "(string \<times> flatDef) list \<Rightarrow> flatDef list" where
  "variableLookupValues variablesLookup =
     map snd (filter (\<lambda>kv. fst kv \<noteq> ''__proto__'') variablesLookup)"

text \<open>
  The own properties of a definition, which a table inherits whose prototype the
  definition is.
\<close>

definition definition_fields :: "flatDef \<Rightarrow> (string \<times> json option) list" where
  "definition_fields d =
     [(''property'', Some (JStr (d_property d))),
      (''propertyName'', Some (JStr (d_propertyName d))),
      (''figmaId'', d_figmaId d),
      (''description'', Some (d_description d)),
      (''value'', Some (d_value d)),
      (''type'', Some (d_type d))]"

text \<open>
  \<^verbatim>\<open>variablesLookup[id]\<close>: an own property, which is a definition; or what the
  prototype chain has under that name, first the definition that was made the prototype
  (which \<^verbatim>\<open>__proto__\<close> itself reads), then \<^verbatim>\<open>Object.prototype\<close>; or \<^verbatim>\<open>undefined\<close>.
\<close>

datatype variable = Definition flatDef | Value json | Nothing

definition inherited_variable :: "string \<Rightarrow> variable" where
  "inherited_variable k = (if k \<in> set Object_prototype then Value (JBuiltin k) else Nothing)"

definition lookup_variable :: "(string \<times> flatDef) list \<Rightarrow> string \<Rightarrow> variable" where
  "lookup_variable variablesLookup k =
     (case map_of variablesLookup k of
        Some d \<Rightarrow> Definition d
      | None \<Rightarrow>
          (case map_of variablesLookup ''__proto__'' of
             None \<Rightarrow> inherited_variable k
           | Some proto \<Rightarrow>
               (case map_of (definition_fields proto) k of
                  None \<Rightarrow> inherited_variable k
                | Some None \<Rightarrow> Nothing
                | Some (Some v) \<Rightarrow> Value v)))"

section \<open>Font style descriptors\<close>

text \<open>
  The result of \<^verbatim>\<open>parseFontStyle\<close>. The weight is a text of the table or of the
  descriptor, or what \<^verbatim>\<open>weightMap[normalizedKey]\<close> inherits.
\<close>

record parsedStyle =
  fontStyle :: string
  fontWeight :: json

text \<open>The table \<^verbatim>\<open>weightMap\<close> of \<^verbatim>\<open>parseFontStyle\<close>, in the order it is written.\<close>

definition weightMap :: "(string \<times> string) list" where
  "weightMap =
     [(''thin'', ''100''), (''extra light'', ''200''), (''ultralight'', ''200''),
      (''light'', ''300''), (''book'', ''350''), (''normal'', ''400''),
      (''regular'', ''400''), (''roman'', ''400''), (''medium'', ''500''),
      (''semi bold'', ''600''), (''demi bold'', ''600''), (''bold'', ''700''),
      (''extra bold'', ''800''), (''black'', ''900''), (''heavy'', ''900'')]"

text \<open>
  The descriptor without its first \<^verbatim>\<open>italic\<close>, lowercased, spaces collapsed, hyphens read
  as spaces: \<^verbatim>\<open>normalizedKey\<close> in the source.
\<close>

definition normalizedKey :: "string \<Rightarrow> string" where
  "normalizedKey styleName =
     (let lower = js_toLowerCase styleName;
          weightKey =
            js_trim (replace_runs (\<lambda>c. c = CHR '' '') (CHR '' '') (js_replace lower ''italic'' ''''))
      in js_trim (replace_runs (\<lambda>c. c = CHR ''-'') (CHR '' '') weightKey))"

definition parseFontStyle :: "string \<Rightarrow> parsedStyle" where
  "parseFontStyle styleName =
     (if styleName = [] then \<lparr>fontStyle = ''normal'', fontWeight = JStr ''400''\<rparr>
      else
        let lower = js_toLowerCase styleName;
            isItalic = js_includes lower ''italic'';
            nkey = normalizedKey styleName;
            directMatch =
              (case js_index weightMap nkey of
                 Own w \<Rightarrow> Some (JStr w)
               | Inherited b \<Rightarrow> Some (JBuiltin b)
               | Missing \<Rightarrow> None);
            weight1 =
              (if \<not> truthy_opt directMatch \<and> nkey \<noteq> [] then
                 (case find (\<lambda>key. js_includes nkey key) (map fst weightMap) of
                    Some fuzzyKey \<Rightarrow>
                      (case map_of weightMap fuzzyKey of
                         Some w \<Rightarrow> Some (JStr w)
                       | None \<Rightarrow>
                           (case match_3digits nkey of
                              Some d \<Rightarrow> Some (JStr d) | None \<Rightarrow> Some (JStr ''400'')))
                  | None \<Rightarrow>
                      (case match_3digits nkey of
                         Some d \<Rightarrow> Some (JStr d) | None \<Rightarrow> Some (JStr ''400'')))
               else directMatch)
        in \<lparr>fontStyle = (if isItalic then ''italic'' else ''normal''),
            fontWeight = or_else weight1 (JStr ''400'')\<rparr>)"

section \<open>Processing the style document\<close>

text \<open>The test \<^verbatim>\<open>/^[1-9]00$/\<close>.\<close>

definition is_hundreds :: "string \<Rightarrow> bool" where
  "is_hundreds s =
     (case s of [a, b, c] \<Rightarrow> a \<in> set ''123456789'' \<and> b = CHR ''0'' \<and> c = CHR ''0'' | _ \<Rightarrow> False)"

text \<open>
  \<^verbatim>\<open>typeof v === "object"\<close> for a value that is not \<^verbatim>\<open>null\<close>; the type of a built-in
  function is \<^verbatim>\<open>function\<close>.
\<close>

definition is_object :: "json \<Rightarrow> bool" where
  "is_object v =
     (case v of
        JObj kvs \<Rightarrow> True | JArr xs \<Rightarrow> True | JBuiltin b \<Rightarrow> b = ''__proto__'' | _ \<Rightarrow> False)"

text \<open>
  \<^verbatim>\<open>valueFromPossibleVariable\<close>, a closure over the lookup table. An absent argument
  takes its default \<^verbatim>\<open>""\<close>. Whatever \<^verbatim>\<open>variablesLookup[item.id]\<close> finds, if it counts
  as true, is asked for its \<^verbatim>\<open>property\<close>; a value that is no definition has none, but
  for an object of a document that holds one.
\<close>

definition valueFromPossibleVariable ::
    "(string \<times> flatDef) list \<Rightarrow> json option \<Rightarrow> json option \<Rightarrow> json" where
  "valueFromPossibleVariable variablesLookup item0 fallback0 =
     (let item = (case item0 of None \<Rightarrow> JStr '''' | Some i \<Rightarrow> i);
          fallback = (case fallback0 of None \<Rightarrow> JStr '''' | Some f \<Rightarrow> f)
      in if truthy item \<and> is_object item then
           (case lookup_variable variablesLookup (to_string_opt (get item ''id'')) of
              Definition variable \<Rightarrow> JStr (''var('' @ d_property variable @ '')'')
            | Value v \<Rightarrow>
                if truthy v then JStr (''var('' @ to_string_opt (get v ''property'') @ '')'')
                else fallback
            | Nothing \<Rightarrow> fallback)
         else
           let stringItem = js_to_string item
           in if is_hundreds stringItem then
                (case find (\<lambda>d. d_value d = JStr stringItem)
                        (variableLookupValues variablesLookup) of
                   Some variable \<Rightarrow> JStr (''var('' @ d_property variable @ '')'')
                 | None \<Rightarrow> JStr stringItem)
              else if stringItem \<noteq> [] then JStr stringItem else fallback)"

text \<open>
  The pattern \<^verbatim>\<open>bound ? valueFromPossibleVariable(bound, literal) : literal\<close> that the
  style processor uses for every sub-property.
\<close>

definition bound_or_literal ::
    "(string \<times> flatDef) list \<Rightarrow> json option \<Rightarrow> json option \<Rightarrow> json option" where
  "bound_or_literal variablesLookup bound literal =
     (if truthy_opt bound then Some (valueFromPossibleVariable variablesLookup bound literal)
      else literal)"

text \<open>\<^verbatim>\<open>values.join(sep)\<close>: \<^verbatim>\<open>null\<close> and \<^verbatim>\<open>undefined\<close> give the empty text.\<close>

definition join_values :: "string \<Rightarrow> json option list \<Rightarrow> string" where
  "join_values sep vs =
     js_join sep (map (\<lambda>v. case v of None \<Rightarrow> [] | Some x \<Rightarrow> if x = JNull then [] else js_to_string x) vs)"

subsection \<open>Text styles\<close>

record fontParts = parsedStyle +
  fontFamily :: string
  fontSizeValue :: string

record fontFallback =
  fb_fontFamily :: "json option"
  fb_fontWeight :: "json option"
  fb_fontStyle :: "json option"
  fb_fontSize :: "json option"

definition style_words :: "json option list \<Rightarrow> string" where
  "style_words vs =
     js_trim (js_join '' ''
       (map (\<lambda>v. js_trim (to_string_opt v))
          (filter (\<lambda>v. v \<noteq> None \<and> v \<noteq> Some JNull \<and> js_trim (to_string_opt v) \<noteq> []) vs)))"

definition deriveFontParts ::
    "json option \<Rightarrow> json option \<Rightarrow> fontFallback \<Rightarrow> error + fontParts" where
  "deriveFontParts fontName0 fontSize fallback =
     (let fontName = (case fontName0 of None \<Rightarrow> JObj [] | Some f \<Rightarrow> f);
          family = (case get fontName ''family'' of None \<Rightarrow> JStr '''' | Some f \<Rightarrow> f);
          style = (case get fontName ''style'' of None \<Rightarrow> JStr '''' | Some s \<Rightarrow> s);
          resolvedFamily =
            (if truthy family then family else or_else (fb_fontFamily fallback) (JStr ''''));
          styleDescriptor =
            (if truthy style then style
             else JStr (style_words [fb_fontStyle fallback, fb_fontWeight fallback]));
          fontSizeValue =
            (case fontSize of
               Some (JNum n) \<Rightarrow> n @ ''px''
             | _ \<Rightarrow> (case fb_fontSize fallback of Some (JNum n) \<Rightarrow> n @ ''px'' | _ \<Rightarrow> ''16px''))
      in if fontName = JNull then Inl TypeError
         else case styleDescriptor of
           JStr d \<Rightarrow>
             Inr \<lparr>fontStyle = fontStyle (parseFontStyle d),
                  fontWeight = fontWeight (parseFontStyle d),
                  fontFamily =
                    (if truthy resolvedFamily
                     then quoted (js_to_string resolvedFamily) @ '', sans-serif''
                     else ''sans-serif''),
                  fontSizeValue = fontSizeValue\<rparr>
         | _ \<Rightarrow> Inl TypeError)"

text \<open>The name of a text style, as the \<^verbatim>\<open>TEXT\<close> branch cleans it.\<close>

definition text_style_name :: "string \<Rightarrow> string" where
  "text_style_name name =
     js_toLowerCase
       (replace_runs (\<lambda>c. \<not> is_alnum c) (CHR ''-'') (dropWhile (\<lambda>c. \<not> is_alnum c) name))"

text \<open>The \<^verbatim>\<open>TEXT\<close> branch of \<^verbatim>\<open>processStyleJSON\<close>: the line pushed to \<^verbatim>\<open>text\<close>.\<close>

definition text_style :: "(string \<times> flatDef) list \<Rightarrow> json \<Rightarrow> error + string" where
  "text_style variablesLookup style =
     (let boundVariables =
            (case get style ''boundVariables'' of None \<Rightarrow> JObj [] | Some b \<Rightarrow> b)
      in case deriveFontParts (get style ''fontName'') (get style ''fontSize'')
                \<lparr>fb_fontFamily = get style ''fontFamily'',
                 fb_fontWeight = get style ''fontWeight'',
                 fb_fontStyle =
                   (case get style ''fontStyle'' of None \<Rightarrow> Some (JStr ''normal'') | Some s \<Rightarrow> Some s),
                 fb_fontSize = get style ''fontSize''\<rparr> of
           Inl err \<Rightarrow> Inl err
         | Inr parts \<Rightarrow>
             if boundVariables = JNull then Inl TypeError
             else (case get style ''name'' of
               Some (JStr name) \<Rightarrow>
                 Inr (''--'' @ TOKEN_PREFIX @ ''font-'' @ text_style_name name @ '': '' @
                   join_values '' ''
                     [bound_or_literal variablesLookup (get boundVariables ''fontStyle'')
                        (Some (JStr (fontStyle parts))),
                      bound_or_literal variablesLookup (get boundVariables ''fontWeight'')
                        (Some (fontWeight parts)),
                      bound_or_literal variablesLookup (get boundVariables ''fontSize'')
                        (Some (JStr (fontSizeValue parts))),
                      bound_or_literal variablesLookup (get boundVariables ''fontFamily'')
                        (Some (JStr (fontFamily parts)))]
                   @ '';'')
             | _ \<Rightarrow> Inl TypeError))"

subsection \<open>Effect styles\<close>

text \<open>\<^verbatim>\<open>sanitizeName\<close>.\<close>

definition sanitizeName :: "string \<Rightarrow> string" where
  "sanitizeName name =
     js_toLowerCase
       (replace_runs (\<lambda>c. c = CHR '' '') (CHR ''-'')
          (js_trim (map (\<lambda>c. if is_alnum c \<or> c = CHR '' '' then c else CHR '' '') name)))"

text \<open>
  \<^verbatim>\<open>formatEffect\<close>. Taking \<^verbatim>\<open>x\<close> and \<^verbatim>\<open>y\<close> out of an absent \<^verbatim>\<open>offset\<close> raises;
  an effect of another type gives \<^verbatim>\<open>undefined\<close>.
\<close>

definition px :: "json option \<Rightarrow> json option" where
  "px v = Some (JStr (to_string_opt v @ ''px''))"

definition formatEffect :: "(string \<times> flatDef) list \<Rightarrow> json \<Rightarrow> error + json option" where
  "formatEffect variablesLookup effect =
     (let typ = get effect ''type'';
          boundVariables = or_else (get effect ''boundVariables'') (JObj [])
      in if typ = Some (JStr ''DROP_SHADOW'') \<or> typ = Some (JStr ''INNER_SHADOW'') then
           (case get effect ''offset'' of
              None \<Rightarrow> Inl TypeError
            | Some offset \<Rightarrow>
                if offset = JNull then Inl TypeError
                else Inr (Some (JStr
                  ((if typ = Some (JStr ''INNER_SHADOW'') then ''inset '' else '''') @
                   join_values '' ''
                     [bound_or_literal variablesLookup (get boundVariables ''offsetX'')
                        (px (get offset ''x'')),
                      bound_or_literal variablesLookup (get boundVariables ''offsetY'')
                        (px (get offset ''y'')),
                      bound_or_literal variablesLookup (get boundVariables ''radius'')
                        (px (get effect ''radius'')),
                      bound_or_literal variablesLookup (get boundVariables ''spread'')
                        (px (get effect ''spread'')),
                      bound_or_literal variablesLookup (get boundVariables ''color'')
                        (get effect ''hex'')]))))
         else if typ = Some (JStr ''LAYER_BLUR'') \<or> typ = Some (JStr ''BACKGROUND_BLUR'') then
           Inr (Some (JStr (''blur('' @
             to_string_opt (bound_or_literal variablesLookup (get boundVariables ''radius'')
                              (px (get effect ''radius''))) @ '')'')))
         else Inr None)"

text \<open>
  The body of \<^verbatim>\<open>effects.forEach\<close>: the state is the three lists \<^verbatim>\<open>shadows\<close>,
  \<^verbatim>\<open>filters\<close> and \<^verbatim>\<open>backdropFilters\<close>. \<^verbatim>\<open>effect.type.match\<close> needs a string.
\<close>

definition add_effect ::
    "(string \<times> flatDef) list \<Rightarrow> json
      \<Rightarrow> error + (json option list \<times> json option list \<times> json option list)
      \<Rightarrow> error + (json option list \<times> json option list \<times> json option list)" where
  "add_effect variablesLookup effect acc =
     (case acc of
        Inl err \<Rightarrow> Inl err
      | Inr (shadows, filters, backdropFilters) \<Rightarrow>
          if effect = JNull then Inl TypeError
          else if \<not> truthy_opt (get effect ''visible'') then acc
          else (case get effect ''type'' of
                  Some (JStr t) \<Rightarrow>
                    (case formatEffect variablesLookup effect of
                       Inl err \<Rightarrow>
                         if js_includes t ''SHADOW'' \<or> js_includes t ''LAYER_BLUR''
                            \<or> js_includes t ''BACKGROUND_BLUR''
                         then Inl err else acc
                     | Inr formatted \<Rightarrow>
                         Inr (if js_includes t ''SHADOW'' then shadows @ [formatted] else shadows,
                              if js_includes t ''LAYER_BLUR'' then filters @ [formatted] else filters,
                              if js_includes t ''BACKGROUND_BLUR''
                              then backdropFilters @ [formatted] else backdropFilters))
                | _ \<Rightarrow> Inl TypeError))"

text \<open>The \<^verbatim>\<open>EFFECT\<close> branch: the lines pushed to \<^verbatim>\<open>effectDefs\<close>.\<close>

definition effect_style :: "(string \<times> flatDef) list \<Rightarrow> json \<Rightarrow> error + string list" where
  "effect_style variablesLookup style =
     (case get style ''name'' of
        Some (JStr name) \<Rightarrow>
          (case get style ''effects'' of
             Some (JArr effects) \<Rightarrow>
               (case fold (add_effect variablesLookup) effects (Inr ([], [], [])) of
                  Inl err \<Rightarrow> Inl err
                | Inr (shadows, filters, backdropFilters) \<Rightarrow>
                    Inr ((if shadows \<noteq> [] then
                            [''--'' @ TOKEN_PREFIX @ ''effects-shadows-'' @ sanitizeName name @ '': ''
                               @ join_values '', '' shadows @ '';'']
                          else [])
                       @ (if filters \<noteq> [] then
                            [''--'' @ TOKEN_PREFIX @ ''effects-filter-'' @ sanitizeName name @ '': ''
                               @ to_string_opt (hd filters) @ '';'']
                          else [])
                       @ (if backdropFilters \<noteq> [] then
                            [''--'' @ TOKEN_PREFIX @ ''effects-backdrop-filter-'' @ sanitizeName name
                               @ '': '' @ to_string_opt (hd backdropFilters) @ '';'']
                          else [])))
           | _ \<Rightarrow> Inl TypeError)
      | _ \<Rightarrow> Inl TypeError)"

text \<open>
  The body of \<^verbatim>\<open>data.forEach\<close> in \<^verbatim>\<open>processStyleJSON\<close>: the state is the pair of
  \<^verbatim>\<open>text\<close> and \<^verbatim>\<open>effectDefs\<close>. A record of another type adds nothing.
\<close>

definition add_style ::
    "(string \<times> flatDef) list \<Rightarrow> json \<Rightarrow> error + (string list \<times> string list)
      \<Rightarrow> error + (string list \<times> string list)" where
  "add_style variablesLookup style acc =
     (case acc of
        Inl err \<Rightarrow> Inl err
      | Inr (text, effectDefs) \<Rightarrow>
          if style = JNull then Inl TypeError
          else if get style ''type'' = Some (JStr ''TEXT'') then
            (case text_style variablesLookup style of
               Inl err \<Rightarrow> Inl err
             | Inr line \<Rightarrow> Inr (text @ [line], effectDefs))
          else if get style ''type'' = Some (JStr ''EFFECT'') then
            (case effect_style variablesLookup style of
               Inl err \<Rightarrow> Inl err
             | Inr ls \<Rightarrow> Inr (text, effectDefs @ ls))
          else acc)"

definition processStyleJSON :: "json \<Rightarrow> (string \<times> flatDef) list \<Rightarrow> error + string list" where
  "processStyleJSON data variablesLookup =
     (case data of
        JArr styles \<Rightarrow>
          (case fold (add_style variablesLookup) styles (Inr ([], [])) of
             Inl err \<Rightarrow> Inl err
           | Inr (text, effectDefs) \<Rightarrow>
               Inr [''/* styles */'', '':root {'',
                    ''  '' @ js_join [CHR 0x0A, CHR '' '', CHR '' ''] (text @ effectDefs), ''}''])
      | _ \<Rightarrow> Inl TypeError)"

section \<open>Notions used in the statements\<close>

text \<open>
  A bound-variable reference that the lookup table cannot resolve: there is none, or it is
  an object for whose \<^verbatim>\<open>id\<close> the table has nothing, neither an own property nor an
  inherited one.
\<close>

definition unresolvable :: "(string \<times> flatDef) list \<Rightarrow> json option \<Rightarrow> bool" where
  "unresolvable variablesLookup bound =
     (case bound of
        None \<Rightarrow> True
      | Some item \<Rightarrow>
          is_object item
          \<and> lookup_variable variablesLookup (to_string_opt (get item ''id'')) = Nothing)"

text \<open>An object without one of its keys.\<close>

definition without_key :: "string \<Rightarrow> json \<Rightarrow> json" where
  "without_key k obj =
     (case obj of JObj kvs \<Rightarrow> JObj (filter (\<lambda>kv. fst kv \<noteq> k) kvs) | _ \<Rightarrow> obj)"

text \<open>
  The text of an alias to the token at \<open>path\<close> of the collection \<open>definitionsKey\<close>:
  the key and the path segments, joined by dots, in braces.
\<close>

definition alias_to :: "string \<Rightarrow> string list \<Rightarrow> string" where
  "alias_to definitionsKey path = ''{'' @ js_join ''.'' (definitionsKey # path) @ ''}''"

text \<open>
  The modes of a leaf, as \<^verbatim>\<open>traverse\<close> reads them: \<^verbatim>\<open>extensionData.modes\<close> when the
  leaf has extension data whose \<^verbatim>\<open>modes\<close> count as true.
\<close>

definition modes_of :: "json \<Rightarrow> json option" where
  "modes_of object =
     (case extensionData_of object of
        None \<Rightarrow> None
      | Some ext \<Rightarrow> if truthy_opt (get ext ''modes'') then get ext ''modes'' else None)"

text \<open>
  The leaf that \<^verbatim>\<open>traverse\<close> reaches from \<open>object\<close> along \<open>path\<close>: every node on the way
  has no \<^verbatim>\<open>$value\<close>, no segment starts with \<^verbatim>\<open>$\<close>, and the node at the end has a
  \<^verbatim>\<open>$value\<close>.
\<close>

fun leaf_at :: "json \<Rightarrow> string list \<Rightarrow> json option" where
  "leaf_at object [] = (if has_property ''$value'' object = Inr True then Some object else None)"
| "leaf_at object (key # path) =
     (if has_property ''$value'' object = Inr False \<and> take 1 key \<noteq> ''$'' then
        (case map_of (own_entries object) key of
           None \<Rightarrow> None
         | Some child \<Rightarrow> leaf_at child path)
      else None)"

text \<open>Some mode of the definitions has a definition of the custom property \<open>p\<close>.\<close>

definition declares :: "definitions \<Rightarrow> string \<Rightarrow> bool" where
  "declares defs p =
     list_ex (\<lambda>mode. case map_of defs mode of
                       None \<Rightarrow> False
                     | Some ds \<Rightarrow> list_ex (\<lambda>d. d_property d = p) ds)
       (map fst defs)"

section \<open>Properties of the font style parser\<close>

lemma fuzzy_key_has_weight:
  "find P (map fst weightMap) = Some k \<Longrightarrow> \<exists>w. map_of weightMap k = Some w"
proof -
  assume "find P (map fst weightMap) = Some k"
  then have "k \<in> set (map fst weightMap)" by (auto simp: find_Some_iff)
  then show ?thesis by (simp add: weightMap_def) (elim disjE; simp)
qed

lemma weight_not_empty: "map_of weightMap k = Some w \<Longrightarrow> w \<noteq> []"
  by (auto simp: weightMap_def split: if_splits)

lemma digits_not_empty: "match_3digits t = Some d \<Longrightarrow> d \<noteq> []"
  by (induction t rule: match_3digits.induct) (auto split: if_splits)

lemma includes_empty: "p \<noteq> [] \<Longrightarrow> \<not> js_includes [] p"
  by (simp add: js_includes_def)

lemma normalizedKey_empty: "normalizedKey [] = []"
  by (simp add: normalizedKey_def js_toLowerCase_def js_replace_def js_trim_def)

lemma no_fuzzy_empty: "find (\<lambda>key. js_includes [] key) (map fst weightMap) = None"
  by (simp add: weightMap_def js_includes_def)

lemma js_index_Own: "js_index kvs k = Own v \<longleftrightarrow> map_of kvs k = Some v"
  by (simp add: js_index_def split: option.splits)

lemma js_index_Missing:
  "js_index kvs k = Missing \<longleftrightarrow> map_of kvs k = None \<and> k \<notin> set Object_prototype"
  by (simp add: js_index_def split: option.splits)

lemma js_index_Inherited:
  "js_index kvs k = Inherited b \<longleftrightarrow> map_of kvs k = None \<and> k \<in> set Object_prototype \<and> b = k"
  by (auto simp: js_index_def split: option.splits)

lemma js_index_empty_key: "js_index weightMap [] = Missing"
  by (simp add: js_index_def weightMap_def Object_prototype_def)

text \<open>
  Claim C6 has every descriptor take its weight from the table, from the digits in it, or
  \<^verbatim>\<open>400\<close>. The descriptor \<^verbatim>\<open>constructor\<close> is no key of the table, but
  \<^verbatim>\<open>weightMap[normalizedKey]\<close> finds the member of \<^verbatim>\<open>Object.prototype\<close> of that name, which
  counts as true: the weight returned is that function, none of the steps of the cascade is
  taken, and the text style that names this descriptor writes the text of the function
  where the weight belongs.
\<close>

theorem parseFontStyle_inherited_weight:
  "parseFontStyle ''constructor''
     = \<lparr>fontStyle = ''normal'', fontWeight = JBuiltin ''constructor''\<rparr>
   \<and> map_of weightMap (normalizedKey ''constructor'') = None
   \<and> find (\<lambda>key. js_includes (normalizedKey ''constructor'') key) (map fst weightMap) = None
   \<and> match_3digits (normalizedKey ''constructor'') = None
   \<and> fontWeight (parseFontStyle ''constructor'') \<noteq> JStr ''400''
   \<and> text_style []
        (JObj [(''type'', JStr ''TEXT''), (''name'', JStr ''Body''),
               (''fontName'', JObj [(''style'', JStr ''constructor'')])])
      = Inr ''--wds-font-body: normal function Object() { [native code] } 16px sans-serif;''"
proof -
  have n: "normalizedKey ''constructor'' = ''constructor''"
    by (simp add: normalizedKey_def js_toLowerCase_def lower_char_def js_replace_def js_trim_def
          is_space_def)
  have p: "parseFontStyle ''constructor''
      = \<lparr>fontStyle = ''normal'', fontWeight = JBuiltin ''constructor''\<rparr>"
    by (simp add: parseFontStyle_def n js_index_def weightMap_def Object_prototype_def
          truthy_opt_def or_else_def js_toLowerCase_def lower_char_def js_includes_def)
  have t: "text_style []
        (JObj [(''type'', JStr ''TEXT''), (''name'', JStr ''Body''),
               (''fontName'', JObj [(''style'', JStr ''constructor'')])])
      = Inr ''--wds-font-body: normal function Object() { [native code] } 16px sans-serif;''"
    by (simp add: text_style_def get_def deriveFontParts_def p or_else_def
          bound_or_literal_def truthy_opt_def join_values_def TOKEN_PREFIX_def
          text_style_name_def js_toLowerCase_def lower_char_def is_alnum_def is_digit_def
          is_upper_def is_lower_def)
  from n p t show ?thesis
    by (simp add: weightMap_def js_includes_def is_digit_def)
qed

text \<open>
  The cascade of \<^verbatim>\<open>parseFontStyle\<close>. The style of a descriptor is \<^verbatim>\<open>italic\<close> exactly when
  its lowercased text contains \<^verbatim>\<open>italic\<close>. The weight comes from the descriptor without
  that keyword (\<open>normalizedKey\<close>): the table entry of that very text; or, when
  \<^verbatim>\<open>weightMap[normalizedKey]\<close> finds nothing, the entry of the first table key that occurs
  in it; failing that, the first three consecutive digits in it; failing that, \<^verbatim>\<open>400\<close>.
  When that text is no key of the table but the name of a member of
  \<^verbatim>\<open>Object.prototype\<close>, the weight is that member.
\<close>

theorem parseFontStyle_cascade:
  "fontStyle (parseFontStyle s) =
     (if js_includes (js_toLowerCase s) ''italic'' then ''italic'' else ''normal'')
   \<and> (\<forall>w. js_index weightMap (normalizedKey s) = Own w
        \<longrightarrow> fontWeight (parseFontStyle s) = JStr w)
   \<and> (\<forall>k. js_index weightMap (normalizedKey s) = Missing
          \<and> find (\<lambda>key. js_includes (normalizedKey s) key) (map fst weightMap) = Some k
        \<longrightarrow> (\<exists>w. map_of weightMap k = Some w \<and> fontWeight (parseFontStyle s) = JStr w))
   \<and> (\<forall>d. js_index weightMap (normalizedKey s) = Missing
          \<and> find (\<lambda>key. js_includes (normalizedKey s) key) (map fst weightMap) = None
          \<and> match_3digits (normalizedKey s) = Some d
        \<longrightarrow> fontWeight (parseFontStyle s) = JStr d)
   \<and> (js_index weightMap (normalizedKey s) = Missing
          \<and> find (\<lambda>key. js_includes (normalizedKey s) key) (map fst weightMap) = None
          \<and> match_3digits (normalizedKey s) = None
        \<longrightarrow> fontWeight (parseFontStyle s) = JStr ''400'')
   \<and> (\<forall>b. js_index weightMap (normalizedKey s) = Inherited b
        \<longrightarrow> fontWeight (parseFontStyle s) = JBuiltin b)"
proof (intro conjI allI impI)
  show "fontStyle (parseFontStyle s) =
     (if js_includes (js_toLowerCase s) ''italic'' then ''italic'' else ''normal'')"
    by (cases "s = []") (simp_all add: parseFontStyle_def Let_def js_toLowerCase_def js_includes_def)
next
  fix w assume a: "js_index weightMap (normalizedKey s) = Own w"
  then have "w \<noteq> []" using weight_not_empty by (simp add: js_index_Own)
  moreover from a have "s \<noteq> []" by (auto simp: normalizedKey_empty js_index_empty_key)
  ultimately show "fontWeight (parseFontStyle s) = JStr w"
    using a by (simp add: parseFontStyle_def Let_def truthy_opt_def or_else_def)
next
  fix k
  assume a: "js_index weightMap (normalizedKey s) = Missing
          \<and> find (\<lambda>key. js_includes (normalizedKey s) key) (map fst weightMap) = Some k"
  then have ne: "s \<noteq> []" "normalizedKey s \<noteq> []"
    using no_fuzzy_empty by (auto simp: normalizedKey_empty)
  from a obtain w where w: "map_of weightMap k = Some w"
    using fuzzy_key_has_weight by blast
  then have "w \<noteq> []" by (rule weight_not_empty)
  with a ne w have "fontWeight (parseFontStyle s) = JStr w"
    by (simp add: parseFontStyle_def Let_def truthy_opt_def or_else_def)
  with w show "\<exists>w. map_of weightMap k = Some w \<and> fontWeight (parseFontStyle s) = JStr w"
    by blast
next
  fix d
  assume a: "js_index weightMap (normalizedKey s) = Missing
          \<and> find (\<lambda>key. js_includes (normalizedKey s) key) (map fst weightMap) = None
          \<and> match_3digits (normalizedKey s) = Some d"
  then have ne: "s \<noteq> []" "normalizedKey s \<noteq> []" by (auto simp: normalizedKey_empty)
  from a have "d \<noteq> []" using digits_not_empty by blast
  with a ne show "fontWeight (parseFontStyle s) = JStr d"
    by (simp add: parseFontStyle_def Let_def truthy_opt_def or_else_def)
next
  assume a: "js_index weightMap (normalizedKey s) = Missing
          \<and> find (\<lambda>key. js_includes (normalizedKey s) key) (map fst weightMap) = None
          \<and> match_3digits (normalizedKey s) = None"
  then show "fontWeight (parseFontStyle s) = JStr ''400''"
    by (cases "s = []") (auto simp: parseFontStyle_def Let_def truthy_opt_def or_else_def)
next
  fix b assume a: "js_index weightMap (normalizedKey s) = Inherited b"
  then have "s \<noteq> []" by (auto simp: normalizedKey_empty js_index_empty_key)
  with a show "fontWeight (parseFontStyle s) = JBuiltin b"
    by (simp add: parseFontStyle_def Let_def truthy_opt_def or_else_def)
qed

text \<open>
  The four steps of the cascade at work; the first descriptor is the example of the
  specification: \<^verbatim>\<open>Semi Bold Italic\<close> is italic with weight 600.
\<close>

lemma normalizedKey_semi_bold: "normalizedKey ''Semi Bold Italic'' = ''semi bold''"
  by (simp add: normalizedKey_def js_toLowerCase_def lower_char_def js_replace_def js_trim_def is_space_def)
lemma normalizedKey_extrabold: "normalizedKey ''ExtraBold'' = ''extrabold''"
  by (simp add: normalizedKey_def js_toLowerCase_def lower_char_def js_replace_def js_trim_def is_space_def)
lemma normalizedKey_w650: "normalizedKey ''W650 Italic'' = ''w650''"
  by (simp add: normalizedKey_def js_toLowerCase_def lower_char_def js_replace_def js_trim_def is_space_def)
lemma normalizedKey_fancy: "normalizedKey ''Fancy'' = ''fancy''"
  by (simp add: normalizedKey_def js_toLowerCase_def lower_char_def js_replace_def js_trim_def is_space_def)

theorem parseFontStyle_cascade_witness:
  "fontStyle (parseFontStyle ''Semi Bold Italic'') = ''italic''
   \<and> fontWeight (parseFontStyle ''Semi Bold Italic'') = JStr ''600''
   \<and> fontWeight (parseFontStyle ''ExtraBold'') = JStr ''700''
   \<and> fontWeight (parseFontStyle ''W650 Italic'') = JStr ''650''
   \<and> fontStyle (parseFontStyle ''W650 Italic'') = ''italic''
   \<and> fontWeight (parseFontStyle ''Fancy'') = JStr ''400''
   \<and> fontStyle (parseFontStyle ''Fancy'') = ''normal''"
proof -
  have a: "js_index weightMap (normalizedKey ''Semi Bold Italic'') = Own ''600''"
    by (simp add: normalizedKey_semi_bold weightMap_def js_index_def)
  have b: "js_index weightMap (normalizedKey ''ExtraBold'') = Missing
     \<and> find (\<lambda>key. js_includes (normalizedKey ''ExtraBold'') key) (map fst weightMap) = Some ''bold''"
    by (simp add: normalizedKey_extrabold weightMap_def js_includes_def js_index_def
          Object_prototype_def)
  have b': "map_of weightMap ''bold'' = Some ''700''" by (simp add: weightMap_def)
  have c: "js_index weightMap (normalizedKey ''W650 Italic'') = Missing
     \<and> find (\<lambda>key. js_includes (normalizedKey ''W650 Italic'') key) (map fst weightMap) = None
     \<and> match_3digits (normalizedKey ''W650 Italic'') = Some ''650''"
    by (simp add: normalizedKey_w650 weightMap_def js_includes_def is_digit_def js_index_def
          Object_prototype_def)
  have d: "js_index weightMap (normalizedKey ''Fancy'') = Missing
     \<and> find (\<lambda>key. js_includes (normalizedKey ''Fancy'') key) (map fst weightMap) = None
     \<and> match_3digits (normalizedKey ''Fancy'') = None"
    by (simp add: normalizedKey_fancy weightMap_def js_includes_def is_digit_def js_index_def
          Object_prototype_def)
  have i1: "js_includes (js_toLowerCase ''Semi Bold Italic'') ''italic''"
    by (simp add: js_toLowerCase_def lower_char_def js_includes_def)
  have i3: "js_includes (js_toLowerCase ''W650 Italic'') ''italic''"
    by (simp add: js_toLowerCase_def lower_char_def js_includes_def)
  have i4: "\<not> js_includes (js_toLowerCase ''Fancy'') ''italic''"
    by (simp add: js_toLowerCase_def lower_char_def js_includes_def)
  have w1: "fontWeight (parseFontStyle ''Semi Bold Italic'') = JStr ''600''"
    using parseFontStyle_cascade [of "''Semi Bold Italic''"] a by blast
  have "\<exists>w. map_of weightMap ''bold'' = Some w
      \<and> fontWeight (parseFontStyle ''ExtraBold'') = JStr w"
    using parseFontStyle_cascade [of "''ExtraBold''"] b by blast
  with b' have w2: "fontWeight (parseFontStyle ''ExtraBold'') = JStr ''700''" by simp
  have w3: "fontWeight (parseFontStyle ''W650 Italic'') = JStr ''650''"
    using parseFontStyle_cascade [of "''W650 Italic''"] c by blast
  have w4: "fontWeight (parseFontStyle ''Fancy'') = JStr ''400''"
    using parseFontStyle_cascade [of "''Fancy''"] d by blast
  have s1: "fontStyle (parseFontStyle ''Semi Bold Italic'') = ''italic''"
    using parseFontStyle_cascade [of "''Semi Bold Italic''"] i1 by simp
  have s3: "fontStyle (parseFontStyle ''W650 Italic'') = ''italic''"
    using parseFontStyle_cascade [of "''W650 Italic''"] i3 by simp
  have s4: "fontStyle (parseFontStyle ''Fancy'') = ''normal''"
    using parseFontStyle_cascade [of "''Fancy''"] i4 by simp
  show ?thesis
    using w1 w2 w3 w4 s1 s3 s4 by blast
qed

section \<open>Properties of objects\<close>

lemma map_of_insert_key:
  "map_of kvs k = None \<Longrightarrow> map_of (insert_key kvs k v) k' = (if k' = k then Some v else map_of kvs k')"
  by (induction kvs) (auto split: if_splits)

lemma map_of_overwrite:
  "map_of (map (\<lambda>(k', v'). if k' = k then (k', v) else (k', v')) kvs) k'
     = (if k' = k then map_option (\<lambda>_. v) (map_of kvs k) else map_of kvs k')"
  by (induction kvs) auto

lemma map_of_obj_set:
  "map_of (obj_set kvs k v) k' = (if k' = k then Some v else map_of kvs k')"
  by (cases "map_of kvs k") (auto simp: obj_set_def map_of_insert_key map_of_overwrite)

lemma set_insert_key: "set (insert_key kvs k v) = insert (k, v) (set kvs)"
proof (induction kvs)
  case Nil
  show ?case by simp
next
  case (Cons a kvs)
  then show ?case by (cases a) (auto simp: insert_commute)
qed

lemma distinct_insert_key:
  "distinct (map fst kvs) \<Longrightarrow> k \<notin> set (map fst kvs) \<Longrightarrow> distinct (map fst (insert_key kvs k v))"
  by (induction kvs) (auto simp: set_insert_key)

lemma keys_overwrite:
  "map (fst \<circ> (\<lambda>(k', v'). if k' = k then (k', v) else (k', v'))) kvs = map fst kvs"
  by (induction kvs) auto

lemma distinct_obj_set:
  "distinct (map fst kvs) \<Longrightarrow> distinct (map fst (obj_set kvs k v))"
proof (cases "map_of kvs k")
  case None
  assume "distinct (map fst kvs)"
  moreover from None have "k \<notin> set (map fst kvs)" by (simp add: map_of_eq_None_iff)
  ultimately show ?thesis using None by (simp add: obj_set_def distinct_insert_key)
next
  case (Some a)
  assume "distinct (map fst kvs)"
  then show ?thesis using Some by (simp add: obj_set_def keys_overwrite)
qed

lemma fold_lookup:
  "map_of (fold (\<lambda>item into. obj_set into (lookup_key item) item) items init) k
     = (if filter (\<lambda>d. lookup_key d = k) items = [] then map_of init k
        else Some (last (filter (\<lambda>d. lookup_key d = k) items)))"
  by (induction items arbitrary: init) (auto simp: map_of_obj_set)

lemma fold_distinct:
  "distinct (map fst init) \<Longrightarrow>
     distinct (map fst (fold (\<lambda>item into. obj_set into (lookup_key item) item) items init))"
  by (induction items arbitrary: init) (auto simp: distinct_obj_set)

lemma build_lookups_last:
  "map_of (build_lookups items) k
     = (if filter (\<lambda>d. lookup_key d = k) items = [] then None
        else Some (last (filter (\<lambda>d. lookup_key d = k) items)))"
  by (simp add: build_lookups_def fold_lookup)

lemma build_lookups_distinct: "distinct (map fst (build_lookups items))"
  by (simp add: build_lookups_def fold_distinct)

lemma get_JObj: "get (JObj kvs) k = map_of kvs k"
  by (simp add: get_def split: option.splits)

section \<open>Properties of the lookup table\<close>

text \<open>
  Claim C9. A leaf without extension data that \<^verbatim>\<open>traverse\<close> turns into a definition
  gets the \<^verbatim>\<open>figmaId\<close> \<^verbatim>\<open>UNDEFINED\<close>, under the mode \<^verbatim>\<open>default\<close>. The lookup table
  has one entry per key, so of all definitions written under \<^verbatim>\<open>UNDEFINED\<close> it holds
  the last one only, and a bound-variable reference to that id resolves to the property of
  that last definition.
\<close>

theorem undefined_figmaId_collision:
  "(has_property ''$value'' object = Inr True \<and> extensionData_of object = None
      \<and> traverse e definitions object replacements definitionsKey prefix convertPixelToRem
            currentType keys = Inr definitions'
    \<longrightarrow> (\<exists>d. push_definition definitions ''default'' d = Inr definitions'
              \<and> d_property d = property_of keys
              \<and> d_figmaId d = Some (JStr ''UNDEFINED'') \<and> lookup_key d = ''UNDEFINED''))
   \<and> (filter (\<lambda>d. lookup_key d = ''UNDEFINED'') items \<noteq> []
    \<longrightarrow> (\<forall>d. (''UNDEFINED'', d) \<in> set (build_lookups items)
              \<longleftrightarrow> d = last (filter (\<lambda>d. lookup_key d = ''UNDEFINED'') items))
        \<and> valueFromPossibleVariable (build_lookups items)
              (Some (JObj [(''id'', JStr ''UNDEFINED'')])) fallback
            = JStr (''var('' @ d_property (last (filter (\<lambda>d. lookup_key d = ''UNDEFINED'') items))
                      @ '')''))"
proof (intro conjI impI)
  assume a: "has_property ''$value'' object = Inr True \<and> extensionData_of object = None
      \<and> traverse e definitions object replacements definitionsKey prefix convertPixelToRem
            currentType keys = Inr definitions'"
  then have leaf: "has_property ''$value'' object = Inr True"
    and ext: "extensionData_of object = None"
    and tr: "traverse e definitions object replacements definitionsKey prefix convertPixelToRem
            currentType keys = Inr definitions'"
    by simp_all
  from tr leaf have "traverse_leaf e definitions object replacements definitionsKey prefix
      convertPixelToRem (or_else (get object ''$type'') currentType) keys = Inr definitions'"
    by (subst (asm) traverse.simps) simp
  with ext obtain css where
    "push_definition definitions ''default''
       \<lparr>d_property = property_of keys, d_propertyName = propertyName_of keys,
        d_figmaId = Some (JStr ''UNDEFINED''),
        d_description = or_else (get object ''$description'') (JStr []),
        d_value = valueWithReplacements replacements css,
        d_type = or_else (get object ''$type'') currentType\<rparr> = Inr definitions'"
    by (auto simp: traverse_leaf_def Let_def split: option.splits sum.splits)
  then show "\<exists>d. push_definition definitions ''default'' d = Inr definitions'
              \<and> d_property d = property_of keys
              \<and> d_figmaId d = Some (JStr ''UNDEFINED'') \<and> lookup_key d = ''UNDEFINED''"
    by (intro exI [of _ "\<lparr>d_property = property_of keys, d_propertyName = propertyName_of keys,
        d_figmaId = Some (JStr ''UNDEFINED''),
        d_description = or_else (get object ''$description'') (JStr []),
        d_value = valueWithReplacements replacements css,
        d_type = or_else (get object ''$type'') currentType\<rparr>"])
       (simp add: lookup_key_def to_string_opt_def)
next
  assume ne: "filter (\<lambda>d. lookup_key d = ''UNDEFINED'') items \<noteq> []"
  then have m: "map_of (build_lookups items) ''UNDEFINED''
      = Some (last (filter (\<lambda>d. lookup_key d = ''UNDEFINED'') items))"
    by (simp add: build_lookups_last)
  show "\<forall>d. (''UNDEFINED'', d) \<in> set (build_lookups items)
              \<longleftrightarrow> d = last (filter (\<lambda>d. lookup_key d = ''UNDEFINED'') items)"
  proof
    fix d
    have "((''UNDEFINED'', d) \<in> set (build_lookups items))
        = (map_of (build_lookups items) ''UNDEFINED'' = Some d)"
      using build_lookups_distinct [of items] by simp
    with m show "(''UNDEFINED'', d) \<in> set (build_lookups items)
              \<longleftrightarrow> d = last (filter (\<lambda>d. lookup_key d = ''UNDEFINED'') items)"
      by auto
  qed
  show "valueFromPossibleVariable (build_lookups items)
              (Some (JObj [(''id'', JStr ''UNDEFINED'')])) fallback
            = JStr (''var('' @ d_property (last (filter (\<lambda>d. lookup_key d = ''UNDEFINED'') items))
                      @ '')'')"
    using m
    by (simp add: valueFromPossibleVariable_def lookup_variable_def is_object_def get_JObj
          to_string_opt_def)
qed

text \<open>
  Two leaves without extension data, \<^verbatim>\<open>a\<close> and \<^verbatim>\<open>b\<close>: both definitions carry
  \<^verbatim>\<open>UNDEFINED\<close>, and a reference to that id resolves to the second one.
\<close>

theorem undefined_figmaId_collision_witness:
  "(\<exists>d. traverse \<lparr>KEY_PREFIX_COLLECTION = ''@'', round4 = js_to_string, quotient16 = (\<lambda>n. [])\<rparr> []
            (JObj [(''$value'', JStr ''#fff'')]) [] ''@c'' ''wds-c'' True (JStr [])
            [''wds-c'', ''a'']
          = push_definition [] ''default'' d
        \<and> d_property d = ''--wds-c-a'' \<and> d_figmaId d = Some (JStr ''UNDEFINED''))
   \<and> valueFromPossibleVariable
        (build_lookups
          [\<lparr>d_property = ''--wds-c-a'', d_propertyName = ''wdsCA'',
            d_figmaId = Some (JStr ''UNDEFINED''), d_description = JStr [],
            d_value = JStr ''#fff'', d_type = JStr []\<rparr>,
           \<lparr>d_property = ''--wds-c-b'', d_propertyName = ''wdsCB'',
            d_figmaId = Some (JStr ''UNDEFINED''), d_description = JStr [],
            d_value = JStr ''#000'', d_type = JStr []\<rparr>])
        (Some (JObj [(''id'', JStr ''UNDEFINED'')])) (Some (JStr ''red''))
      = JStr ''var(--wds-c-b)''"
proof -
  let ?e = "\<lparr>KEY_PREFIX_COLLECTION = ''@'', round4 = js_to_string, quotient16 = (\<lambda>n. [])\<rparr>"
  let ?leaf = "JObj [(''$value'', JStr ''#fff'')]"
  let ?a = "\<lparr>d_property = ''--wds-c-a'', d_propertyName = ''wdsCA'',
            d_figmaId = Some (JStr ''UNDEFINED''), d_description = JStr [],
            d_value = JStr ''#fff'', d_type = JStr []\<rparr>"
  let ?b = "\<lparr>d_property = ''--wds-c-b'', d_propertyName = ''wdsCB'',
            d_figmaId = Some (JStr ''UNDEFINED''), d_description = JStr [],
            d_value = JStr ''#000'', d_type = JStr []\<rparr>"
  have run: "traverse ?e [] ?leaf [] ''@c'' ''wds-c'' True (JStr []) [''wds-c'', ''a'']
      = Inr [(''default'', [?a])]"
    by (simp add: traverse.simps has_property_def traverse_leaf_def extensionData_of_def
          get_JObj or_else_def valueToCSS_def js_includes_def valueIsDigits_def is_digit_def
          valueWithReplacements_def js_toLowerCase_def lower_char_def property_of_def
          propertyName_of_def propertyNameFull_def capitalize_def upper_char_def is_alnum_def
          is_upper_def is_lower_def push_definition_def js_index_def Object_prototype_def
          obj_set_def Let_def)
  have h1: "has_property ''$value'' ?leaf = Inr True \<and> extensionData_of ?leaf = None
      \<and> traverse ?e [] ?leaf [] ''@c'' ''wds-c'' True (JStr []) [''wds-c'', ''a'']
          = Inr [(''default'', [?a])]"
    using run by (simp add: has_property_def extensionData_of_def get_JObj)
  have p: "property_of [''wds-c'', ''a''] = ''--wds-c-a''"
    by (simp add: property_of_def)
  have h2: "filter (\<lambda>d. lookup_key d = ''UNDEFINED'') [?a, ?b] = [?a, ?b]"
    by (simp add: lookup_key_def to_string_opt_def)
  have first: "\<exists>d. push_definition [] ''default'' d = Inr [(''default'', [?a])]
              \<and> d_property d = property_of [''wds-c'', ''a'']
              \<and> d_figmaId d = Some (JStr ''UNDEFINED'') \<and> lookup_key d = ''UNDEFINED''"
    using undefined_figmaId_collision
      [of ?leaf ?e "[]" "[]" "''@c''" "''wds-c''" True "JStr []" "[''wds-c'', ''a'']"
          "[(''default'', [?a])]" "[?a, ?b]" "Some (JStr ''red'')"] h1
    by blast
  have second: "valueFromPossibleVariable (build_lookups [?a, ?b])
        (Some (JObj [(''id'', JStr ''UNDEFINED'')])) (Some (JStr ''red''))
      = JStr (''var('' @ d_property (last (filter (\<lambda>d. lookup_key d = ''UNDEFINED'') [?a, ?b])) @ '')'')"
    using undefined_figmaId_collision
      [of ?leaf ?e "[]" "[]" "''@c''" "''wds-c''" True "JStr []" "[''wds-c'', ''a'']"
          "[(''default'', [?a])]" "[?a, ?b]" "Some (JStr ''red'')"] h2
    by simp
  from first run p have "\<exists>d. traverse ?e [] ?leaf [] ''@c'' ''wds-c'' True (JStr [])
            [''wds-c'', ''a''] = push_definition [] ''default'' d
        \<and> d_property d = ''--wds-c-a'' \<and> d_figmaId d = Some (JStr ''UNDEFINED'')"
    by (metis (no_types))
  moreover from second h2 have "valueFromPossibleVariable (build_lookups [?a, ?b])
        (Some (JObj [(''id'', JStr ''UNDEFINED'')])) (Some (JStr ''red'')) = JStr ''var(--wds-c-b)''"
    by simp
  ultimately show ?thesis by blast
qed

lemma is_object_truthy: "is_object item \<Longrightarrow> truthy item"
  by (cases item) (simp_all add: is_object_def)

lemma map_of_filter_other:
  "k \<noteq> k0 \<Longrightarrow> map_of (filter (\<lambda>kv. fst kv \<noteq> k0) kvs) k = map_of kvs k"
  by (induction kvs) auto

lemma map_of_filter_same: "map_of (filter (\<lambda>kv. fst kv \<noteq> k0) kvs) k0 = None"
  by (induction kvs) auto

lemma get_without_other: "k \<noteq> k0 \<Longrightarrow> get (without_key k0 (JObj kvs)) k = get (JObj kvs) k"
  by (simp add: without_key_def get_JObj map_of_filter_other)

lemma get_without_same: "get (without_key k0 (JObj kvs)) k0 = None"
  by (simp add: without_key_def get_JObj map_of_filter_same)

lemma bound_or_literal_unresolvable:
  "unresolvable variablesLookup bound \<Longrightarrow>
     bound_or_literal variablesLookup bound (Some literal) = Some literal"
  by (cases bound)
     (auto simp: unresolvable_def bound_or_literal_def truthy_opt_def
        valueFromPossibleVariable_def Let_def is_object_truthy)

lemma bound_or_literal_absent: "bound_or_literal variablesLookup None literal = literal"
  by (simp add: bound_or_literal_def truthy_opt_def)

lemma lookup_variable_nothing:
  "map_of variablesLookup k = None \<Longrightarrow> map_of variablesLookup ''__proto__'' = None \<Longrightarrow>
     k \<notin> set Object_prototype \<Longrightarrow> lookup_variable variablesLookup k = Nothing"
  by (simp add: lookup_variable_def inherited_variable_def)

section \<open>Properties of the style processor\<close>

text \<open>
  Claim C7, as amended. A bound value whose text is one of \<^verbatim>\<open>100\<close>, \<^verbatim>\<open>200\<close>, ...,
  \<^verbatim>\<open>900\<close> (a string, or a number with that text) is looked for among the values of the
  lookup table: the first definition whose value is that very string gives its
  \<^verbatim>\<open>var(...)\<close> reference, and without such a definition the text itself is returned.
  Any other non-empty text, every other three-digit text included, is returned as it is,
  without a search.
\<close>

theorem hundreds_weight_substitution:
  assumes "item = JStr s \<or> item = JNum s"
  shows "(is_hundreds s \<longrightarrow>
            (\<forall>v. find (\<lambda>d. d_value d = JStr s) (variableLookupValues variablesLookup) = Some v
                \<longrightarrow> valueFromPossibleVariable variablesLookup (Some item) fallback
                    = JStr (''var('' @ d_property v @ '')''))
          \<and> ((\<forall>d \<in> set (variableLookupValues variablesLookup). d_value d \<noteq> JStr s)
                \<longrightarrow> valueFromPossibleVariable variablesLookup (Some item) fallback = JStr s))
       \<and> (\<not> is_hundreds s \<and> s \<noteq> []
            \<longrightarrow> valueFromPossibleVariable variablesLookup (Some item) fallback = JStr s)"
proof -
  have str: "js_to_string item = s" and obj: "\<not> is_object item"
    using assms by (auto simp: is_object_def)
  have none: "(\<forall>d \<in> set (variableLookupValues variablesLookup). d_value d \<noteq> JStr s)
      \<Longrightarrow> find (\<lambda>d. d_value d = JStr s) (variableLookupValues variablesLookup) = None"
    by (simp add: find_None_iff)
  show ?thesis
    using str obj none by (auto simp: valueFromPossibleVariable_def Let_def)
qed

text \<open>
  A table with one weight token of value \<^verbatim>\<open>700\<close>: the bound value \<^verbatim>\<open>700\<close> becomes the
  reference, the bound number \<^verbatim>\<open>600\<close> and the bound text \<^verbatim>\<open>bold\<close> stay literal.
\<close>

theorem hundreds_weight_substitution_witness:
  "valueFromPossibleVariable
     [(''V:1'', \<lparr>d_property = ''--wds-weight-bold'', d_propertyName = ''wdsWeightBold'',
                d_figmaId = Some (JStr ''V:1''), d_description = JStr [],
                d_value = JStr ''700'', d_type = JStr ''string''\<rparr>)]
     (Some (JStr ''700'')) (Some (JStr ''400'')) = JStr ''var(--wds-weight-bold)''
   \<and> valueFromPossibleVariable
     [(''V:1'', \<lparr>d_property = ''--wds-weight-bold'', d_propertyName = ''wdsWeightBold'',
                d_figmaId = Some (JStr ''V:1''), d_description = JStr [],
                d_value = JStr ''700'', d_type = JStr ''string''\<rparr>)]
     (Some (JNum ''600'')) (Some (JStr ''400'')) = JStr ''600''
   \<and> valueFromPossibleVariable
     [(''V:1'', \<lparr>d_property = ''--wds-weight-bold'', d_propertyName = ''wdsWeightBold'',
                d_figmaId = Some (JStr ''V:1''), d_description = JStr [],
                d_value = JStr ''700'', d_type = JStr ''string''\<rparr>)]
     (Some (JStr ''bold'')) (Some (JStr ''400'')) = JStr ''bold''"
proof -
  let ?d = "\<lparr>d_property = ''--wds-weight-bold'', d_propertyName = ''wdsWeightBold'',
                d_figmaId = Some (JStr ''V:1''), d_description = JStr [],
                d_value = JStr ''700'', d_type = JStr ''string''\<rparr>"
  have h7: "is_hundreds ''700''" and h6: "is_hundreds ''600''"
    and hb: "\<not> is_hundreds ''bold'' \<and> ''bold'' \<noteq> []"
    by (simp_all add: is_hundreds_def)
  have f7: "find (\<lambda>d. d_value d = JStr ''700'') (variableLookupValues [(''V:1'', ?d)]) = Some ?d"
    by (simp add: variableLookupValues_def)
  have f6: "\<forall>d \<in> set (variableLookupValues [(''V:1'', ?d)]). d_value d \<noteq> JStr ''600''"
    by (simp add: variableLookupValues_def)
  have a: "valueFromPossibleVariable [(''V:1'', ?d)] (Some (JStr ''700'')) (Some (JStr ''400''))
      = JStr (''var('' @ d_property ?d @ '')'')"
    using hundreds_weight_substitution
      [of "JStr ''700''" "''700''" "[(''V:1'', ?d)]" "Some (JStr ''400'')"] h7 f7
    by blast
  have b: "valueFromPossibleVariable [(''V:1'', ?d)] (Some (JNum ''600'')) (Some (JStr ''400''))
      = JStr ''600''"
    using hundreds_weight_substitution
      [of "JNum ''600''" "''600''" "[(''V:1'', ?d)]" "Some (JStr ''400'')"] h6 f6
    by blast
  have c: "valueFromPossibleVariable [(''V:1'', ?d)] (Some (JStr ''bold'')) (Some (JStr ''400''))
      = JStr ''bold''"
    using hundreds_weight_substitution
      [of "JStr ''bold''" "''bold''" "[(''V:1'', ?d)]" "Some (JStr ''400'')"] hb
    by blast
  from a b c show ?thesis by simp
qed

text \<open>
  The claim as stated speaks of every bare three-digit string. The table below holds a
  definition whose value is \<^verbatim>\<open>350\<close>, and the bound value \<^verbatim>\<open>350\<close> is still returned
  as the literal text, not as the reference to that definition.
\<close>

theorem three_digit_weight_counterexample:
  "valueFromPossibleVariable
     [(''V:9'', \<lparr>d_property = ''--wds-weight-book'', d_propertyName = ''wdsWeightBook'',
                d_figmaId = Some (JStr ''V:9''), d_description = JStr [],
                d_value = JStr ''350'', d_type = JStr ''string''\<rparr>)]
     (Some (JStr ''350'')) (Some (JStr ''400'')) = JStr ''350''
   \<and> valueFromPossibleVariable
     [(''V:9'', \<lparr>d_property = ''--wds-weight-book'', d_propertyName = ''wdsWeightBook'',
                d_figmaId = Some (JStr ''V:9''), d_description = JStr [],
                d_value = JStr ''350'', d_type = JStr ''string''\<rparr>)]
     (Some (JStr ''350'')) (Some (JStr ''400'')) \<noteq> JStr ''var(--wds-weight-book)''"
  by (simp add: valueFromPossibleVariable_def is_object_def is_hundreds_def)

text \<open>
  Claim C8 has every reference whose \<^verbatim>\<open>id\<close> is absent from the lookup table fall back to
  the derived literal. The \<^verbatim>\<open>id\<close> \<^verbatim>\<open>constructor\<close> is absent from the empty table, but
  \<^verbatim>\<open>variablesLookup[item.id]\<close> finds the member of \<^verbatim>\<open>Object.prototype\<close> of that name,
  which counts as true and has no \<^verbatim>\<open>property\<close>: the result is \<^verbatim>\<open>var(undefined)\<close>, and
  the text style whose size is bound to that reference writes it in place of the derived
  \<^verbatim>\<open>16px\<close>.
\<close>

theorem inherited_id_is_resolved:
  "map_of ([] :: (string \<times> flatDef) list) ''constructor'' = None
   \<and> valueFromPossibleVariable [] (Some (JObj [(''id'', JStr ''constructor'')]))
        (Some (JStr ''16px'')) = JStr ''var(undefined)''
   \<and> text_style []
       (JObj [(''type'', JStr ''TEXT''), (''name'', JStr ''Body''), (''fontSize'', JNum ''16''),
              (''boundVariables'', JObj [(''fontSize'', JObj [(''id'', JStr ''constructor'')])])])
     = Inr ''--wds-font-body: normal 400 var(undefined) sans-serif;''
   \<and> text_style []
       (JObj [(''type'', JStr ''TEXT''), (''name'', JStr ''Body''), (''fontSize'', JNum ''16'')])
     = Inr ''--wds-font-body: normal 400 16px sans-serif;''"
  by (simp add: valueFromPossibleVariable_def lookup_variable_def inherited_variable_def
        Object_prototype_def is_object_def get_def to_string_opt_def
        text_style_def deriveFontParts_def style_words_def
        js_trim_def is_space_def parseFontStyle_def normalizedKey_def
        js_toLowerCase_def lower_char_def js_includes_def js_replace_def weightMap_def
        js_index_def or_else_def bound_or_literal_def truthy_opt_def join_values_def
        TOKEN_PREFIX_def text_style_name_def is_alnum_def is_digit_def is_upper_def is_lower_def)

text \<open>
  The fallback to the literal. A bound-variable reference that is an object for whose
  \<^verbatim>\<open>id\<close> the lookup finds nothing gives the literal it was called with; the lookup finds
  nothing for an \<^verbatim>\<open>id\<close> that is no key of the table and no name of a member of
  \<^verbatim>\<open>Object.prototype\<close>, in a table whose prototype was not replaced. For a text style all
  of whose bound references are absent or unresolvable, the line written (or the error
  raised) is the one of the same style without \<^verbatim>\<open>boundVariables\<close>: the derived literals
  are used, and the references add no error.
\<close>

theorem unresolvable_reference_fallback:
  "(is_object item
      \<and> lookup_variable variablesLookup (to_string_opt (get item ''id'')) = Nothing
      \<longrightarrow> valueFromPossibleVariable variablesLookup (Some item) (Some literal) = literal
          \<and> bound_or_literal variablesLookup (Some item) (Some literal) = Some literal)
   \<and> (map_of variablesLookup k = None \<and> map_of variablesLookup ''__proto__'' = None
        \<and> k \<notin> set Object_prototype
      \<longrightarrow> lookup_variable variablesLookup k = Nothing)
   \<and> (get (JObj style) ''boundVariables'' = Some boundVariables \<and> boundVariables \<noteq> JNull
        \<and> (\<forall>name \<in> set [''fontStyle'', ''fontWeight'', ''fontSize'', ''fontFamily''].
               unresolvable variablesLookup (get boundVariables name))
      \<longrightarrow> text_style variablesLookup (JObj style)
          = text_style variablesLookup (without_key ''boundVariables'' (JObj style)))"
proof (intro conjI impI)
  assume "is_object item
      \<and> lookup_variable variablesLookup (to_string_opt (get item ''id'')) = Nothing"
  then show "valueFromPossibleVariable variablesLookup (Some item) (Some literal) = literal"
    and "bound_or_literal variablesLookup (Some item) (Some literal) = Some literal"
    by (simp_all add: valueFromPossibleVariable_def bound_or_literal_def truthy_opt_def
          Let_def is_object_truthy)
next
  assume "map_of variablesLookup k = None \<and> map_of variablesLookup ''__proto__'' = None
        \<and> k \<notin> set Object_prototype"
  then show "lookup_variable variablesLookup k = Nothing"
    by (simp add: lookup_variable_nothing)
next
  assume a: "get (JObj style) ''boundVariables'' = Some boundVariables \<and> boundVariables \<noteq> JNull
        \<and> (\<forall>name \<in> set [''fontStyle'', ''fontWeight'', ''fontSize'', ''fontFamily''].
               unresolvable variablesLookup (get boundVariables name))"
  then have u: "unresolvable variablesLookup (get boundVariables ''fontStyle'')"
      "unresolvable variablesLookup (get boundVariables ''fontWeight'')"
      "unresolvable variablesLookup (get boundVariables ''fontSize'')"
      "unresolvable variablesLookup (get boundVariables ''fontFamily'')"
    by simp_all
  have g: "get (without_key ''boundVariables'' (JObj style)) ''fontName'' = get (JObj style) ''fontName''"
      "get (without_key ''boundVariables'' (JObj style)) ''fontSize'' = get (JObj style) ''fontSize''"
      "get (without_key ''boundVariables'' (JObj style)) ''fontFamily'' = get (JObj style) ''fontFamily''"
      "get (without_key ''boundVariables'' (JObj style)) ''fontWeight'' = get (JObj style) ''fontWeight''"
      "get (without_key ''boundVariables'' (JObj style)) ''fontStyle'' = get (JObj style) ''fontStyle''"
      "get (without_key ''boundVariables'' (JObj style)) ''name'' = get (JObj style) ''name''"
    by (simp_all add: get_without_other)
  have e: "get (JObj []) k = None" for k by (simp add: get_JObj)
  from a have b: "get (JObj style) ''boundVariables'' = Some boundVariables"
    and n: "boundVariables \<noteq> JNull" by simp_all
  show "text_style variablesLookup (JObj style)
         = text_style variablesLookup (without_key ''boundVariables'' (JObj style))"
    unfolding text_style_def g get_without_same
    using b n u
    by (simp add: Let_def bound_or_literal_unresolvable bound_or_literal_absent e
          split: sum.splits option.splits json.splits)
qed

text \<open>
  A text style whose size is bound to a variable that the table does not know: the line
  carries the derived \<^verbatim>\<open>16px\<close>.
\<close>

theorem unresolvable_reference_fallback_witness:
  "valueFromPossibleVariable [] (Some (JObj [(''id'', JStr ''VariableID:1:2'')]))
     (Some (JStr ''16px'')) = JStr ''16px''
   \<and> text_style []
       (JObj [(''type'', JStr ''TEXT''), (''name'', JStr ''Body''), (''fontSize'', JNum ''16''),
              (''boundVariables'', JObj [(''fontSize'', JObj [(''id'', JStr ''VariableID:1:2'')])])])
     = Inr ''--wds-font-body: normal 400 16px sans-serif;''"
proof -
  let ?ref = "JObj [(''id'', JStr ''VariableID:1:2'')]"
  let ?style = "[(''type'', JStr ''TEXT''), (''name'', JStr ''Body''), (''fontSize'', JNum ''16''),
              (''boundVariables'', JObj [(''fontSize'', ?ref)])]"
  have k: "map_of ([] :: (string \<times> flatDef) list) ''VariableID:1:2'' = None
      \<and> map_of ([] :: (string \<times> flatDef) list) ''__proto__'' = None
      \<and> ''VariableID:1:2'' \<notin> set Object_prototype"
    by (simp add: Object_prototype_def)
  have l: "lookup_variable [] ''VariableID:1:2'' = Nothing"
    using unresolvable_reference_fallback
      [of ?ref "[]" "JStr ''16px''" "''VariableID:1:2''" ?style "JObj [(''fontSize'', ?ref)]"] k
    by blast
  have i: "to_string_opt (get ?ref ''id'') = ''VariableID:1:2''"
    by (simp add: get_JObj to_string_opt_def)
  have r: "is_object ?ref \<and> lookup_variable [] (to_string_opt (get ?ref ''id'')) = Nothing"
    using l i by (simp add: is_object_def)
  have h: "get (JObj ?style) ''boundVariables'' = Some (JObj [(''fontSize'', ?ref)])
        \<and> JObj [(''fontSize'', ?ref)] \<noteq> JNull
        \<and> (\<forall>name \<in> set [''fontStyle'', ''fontWeight'', ''fontSize'', ''fontFamily''].
               unresolvable [] (get (JObj [(''fontSize'', ?ref)]) name))"
    using l i by (simp add: get_JObj unresolvable_def is_object_def)
  have plain: "text_style [] (without_key ''boundVariables'' (JObj ?style))
      = Inr ''--wds-font-body: normal 400 16px sans-serif;''"
    by (simp add: text_style_def without_key_def get_JObj deriveFontParts_def style_words_def
          to_string_opt_def js_trim_def is_space_def parseFontStyle_def normalizedKey_def
          js_toLowerCase_def lower_char_def js_includes_def js_replace_def weightMap_def
          js_index_def or_else_def bound_or_literal_def truthy_opt_def join_values_def
          TOKEN_PREFIX_def text_style_name_def is_alnum_def is_digit_def is_upper_def
          is_lower_def)
  have v: "valueFromPossibleVariable [] (Some ?ref) (Some (JStr ''16px'')) = JStr ''16px''"
    using unresolvable_reference_fallback
      [of ?ref "[]" "JStr ''16px''" "''VariableID:1:2''" ?style "JObj [(''fontSize'', ?ref)]"] r
    by blast
  have t: "text_style [] (JObj ?style) = text_style [] (without_key ''boundVariables'' (JObj ?style))"
    using unresolvable_reference_fallback
      [of ?ref "[]" "JStr ''16px''" "''VariableID:1:2''" ?style "JObj [(''fontSize'', ?ref)]"] h
    by blast
  from v t plain show ?thesis by simp
qed

section \<open>Properties of the CSS emitter\<close>



lemma map_enumerate_after_first:
  "(\<And>i x. 0 < i \<Longrightarrow> f (i, x) = g x) \<Longrightarrow> map f (enumerate (Suc n) xs) = map g xs"
  by (induction xs arbitrary: n) auto


lemma never_enumerated_before: "array_index k = None \<Longrightarrow> \<not> enumerated_before k k'"
  by (simp add: enumerated_before_def)

lemma insert_key_plain: "array_index k = None \<Longrightarrow> insert_key kvs k v = kvs @ [(k, v)]"
  by (induction kvs) (auto simp: never_enumerated_before)

lemma insert_key_front:
  "array_index k \<noteq> None \<Longrightarrow> \<forall>k' \<in> set (map fst kvs). array_index k' = None \<Longrightarrow>
     insert_key kvs k v = (k, v) # kvs"
  by (cases kvs) (auto simp: enumerated_before_def)



text \<open>
  Claim C4, as amended. With two light schemes \<open>a\<close> and \<open>b\<close> the CSS of the collection
  starts with the \<^verbatim>\<open>:root\<close> block of \<open>a\<close> and goes on with the block of \<open>b\<close>, whose
  selector is the class \<^verbatim>\<open>.wds-scheme-<key>-<name>\<close>: the word is \<^verbatim>\<open>scheme\<close>, and the name
  is \<open>b\<close> without the first occurrence of the configured light text. Each block holds the
  lines drawn from the definitions of its scheme. For \<^verbatim>\<open>b_light\<close> and the text
  \<^verbatim>\<open>_light\<close> the name is \<^verbatim>\<open>b\<close>.
\<close>

theorem scheme_scoping:
  "(s_colorSchemes settings = Some [a, b]
      \<longrightarrow> take 8 (fileStringCSSFromProcessedObject definitions settings key)
          = [''/* '' @ key @ '': '' @ a @ '' (default) */'',
             '':root {'',
             drawCSSPropLines (map_of definitions a) ''  '',
             ''}'',
             ''/* '' @ key @ '': '' @ b @ '' */'',
             ''.wds-scheme-'' @ key @ ''-'' @ strip_scheme b (s_colorSchemeLightRemove settings)
               @ '' {'',
             drawCSSPropLines (map_of definitions b) ''  '',
             ''}''])
   \<and> strip_scheme ''b_light'' (Some ''_light'') = ''b''"
proof (intro conjI impI)
  assume "s_colorSchemes settings = Some [a, b]"
  then show "take 8 (fileStringCSSFromProcessedObject definitions settings key)
          = [''/* '' @ key @ '': '' @ a @ '' (default) */'',
             '':root {'',
             drawCSSPropLines (map_of definitions a) ''  '',
             ''}'',
             ''/* '' @ key @ '': '' @ b @ '' */'',
             ''.wds-scheme-'' @ key @ ''-'' @ strip_scheme b (s_colorSchemeLightRemove settings)
               @ '' {'',
             drawCSSPropLines (map_of definitions b) ''  '',
             ''}'']"
    by (simp add: fileStringCSSFromProcessedObject_def TOKEN_PREFIX_def)
next
  show "strip_scheme ''b_light'' (Some ''_light'') = ''b''"
    by (simp add: strip_scheme_def js_replace_def)
qed

text \<open>
  The schemes of the claim over one definition each: the second block is the class
  \<^verbatim>\<open>.wds-scheme-color-b\<close>.
\<close>

theorem scheme_scoping_witness:
  "fileStringCSSFromProcessedObject
     [(''a_light'', [\<lparr>d_property = ''--wds-color-text'', d_propertyName = ''wdsColorText'',
                      d_figmaId = Some (JStr ''V:1''), d_description = JStr [],
                      d_value = JStr ''#111'', d_type = JStr ''color''\<rparr>]),
      (''b_light'', [\<lparr>d_property = ''--wds-color-text'', d_propertyName = ''wdsColorText'',
                      d_figmaId = Some (JStr ''V:1''), d_description = JStr [],
                      d_value = JStr ''#222'', d_type = JStr ''color''\<rparr>])]
     ((plain_settings ''color'')
        \<lparr>s_colorSchemes := Some [''a_light'', ''b_light''],
         s_colorSchemeLightRemove := Some ''_light''\<rparr>)
     ''color''
   = [''/* color: a_light (default) */'', '':root {'', ''  --wds-color-text: #111;'', ''}'',
      ''/* color: b_light */'', ''.wds-scheme-color-b {'', ''  --wds-color-text: #222;'', ''}'']"
proof -
  let ?d1 = "\<lparr>d_property = ''--wds-color-text'', d_propertyName = ''wdsColorText'',
                      d_figmaId = Some (JStr ''V:1''), d_description = JStr [],
                      d_value = JStr ''#111'', d_type = JStr ''color''\<rparr>"
  let ?d2 = "\<lparr>d_property = ''--wds-color-text'', d_propertyName = ''wdsColorText'',
                      d_figmaId = Some (JStr ''V:1''), d_description = JStr [],
                      d_value = JStr ''#222'', d_type = JStr ''color''\<rparr>"
  let ?defs = "[(''a_light'', [?d1]), (''b_light'', [?d2])]"
  let ?s = "(plain_settings ''color'')
        \<lparr>s_colorSchemes := Some [''a_light'', ''b_light''],
         s_colorSchemeLightRemove := Some ''_light''\<rparr>"
  have h: "s_colorSchemes ?s = Some [''a_light'', ''b_light'']"
    by (simp add: plain_settings_def)
  have r: "s_colorSchemeLightRemove ?s = Some ''_light''"
    by (simp add: plain_settings_def)
  have l: "length (fileStringCSSFromProcessedObject ?defs ?s ''color'') = 8"
    by (simp add: fileStringCSSFromProcessedObject_def plain_settings_def)
  have d1: "drawCSSPropLines (map_of ?defs ''a_light'') ''  '' = ''  --wds-color-text: #111;''"
    and d2: "drawCSSPropLines (map_of ?defs ''b_light'') ''  '' = ''  --wds-color-text: #222;''"
    by (simp_all add: drawCSSPropLines_def sort_by_property_def)
  have "take 8 (fileStringCSSFromProcessedObject ?defs ?s ''color'')
      = [''/* color: a_light (default) */'', '':root {'', ''  --wds-color-text: #111;'', ''}'',
         ''/* color: b_light */'', ''.wds-scheme-color-b {'', ''  --wds-color-text: #222;'', ''}'']"
    using scheme_scoping [of ?s "''a_light''" "''b_light''" ?defs "''color''"] h r d1 d2
    by simp
  with l show ?thesis by simp
qed

text \<open>
  The claim names the class \<^verbatim>\<open>.wds-theme-color-b\<close>. For the schemes of the claim and
  a collection without definitions, the sixth line is the selector of the class
  \<^verbatim>\<open>.wds-scheme-color-b\<close>, and no line is the selector the claim names.
\<close>

theorem scheme_scoping_counterexample:
  "fileStringCSSFromProcessedObject []
     ((plain_settings ''color'')
        \<lparr>s_colorSchemes := Some [''a_light'', ''b_light''],
         s_colorSchemeLightRemove := Some ''_light''\<rparr>)
     ''color''
   = [''/* color: a_light (default) */'', '':root {'', '';'', ''}'',
      ''/* color: b_light */'', ''.wds-scheme-color-b {'', '';'', ''}'']
   \<and> ''.wds-theme-color-b {'' \<notin> set (fileStringCSSFromProcessedObject []
     ((plain_settings ''color'')
        \<lparr>s_colorSchemes := Some [''a_light'', ''b_light''],
         s_colorSchemeLightRemove := Some ''_light''\<rparr>)
     ''color'')"
  by (simp add: fileStringCSSFromProcessedObject_def plain_settings_def TOKEN_PREFIX_def
        strip_scheme_def js_replace_def drawCSSPropLines_def sort_by_property_def)

lemma array_index_not_inherited: "array_index k \<noteq> None \<Longrightarrow> k \<notin> set Object_prototype"
  by (auto simp: array_index_def Object_prototype_def is_digit_def split: if_splits)

text \<open>
  Claim C5, as amended. Without a colour-scheme setting the modes are drawn in the order
  in which the object \<^verbatim>\<open>definitions\<close> enumerates them: the first is the \<^verbatim>\<open>:root\<close>
  block, and every later mode is the block of the class \<^verbatim>\<open>.wds-theme-<key>-<mode>\<close>. That
  order is the order of insertion for mode names that are not array indices: such a new
  mode, when it is not the name of a member of \<^verbatim>\<open>Object.prototype\<close>, goes to the end, and
  a definition for a known mode moves nothing. A new mode whose name is an array index
  goes in front of all modes whose names are not.
\<close>

theorem theme_block_naming:
  "(s_colorSchemes settings = None
      \<longrightarrow> fileStringCSSFromProcessedObject ((mode0, lines0) # later) settings key
          = [''/* '' @ key @ '': '' @ mode0 @ '' (default) */'',
             '':root {'',
             drawCSSPropLines (Some lines0) ''  '',
             ''}'']
            @ concat (map (\<lambda>(mode, lines).
                [''/* '' @ key @ '': '' @ mode @ '' */'',
                 ''.wds-theme-'' @ key @ ''-'' @ mode @ '' {'',
                 drawCSSPropLines (Some lines) ''  '',
                 ''}'']) later))
   \<and> (map_of definitions mode = None \<and> mode \<notin> set Object_prototype
        \<and> array_index mode = None
      \<longrightarrow> push_definition definitions mode d = Inr (definitions @ [(mode, [d])]))
   \<and> (map_of definitions mode \<noteq> None
      \<longrightarrow> (\<exists>definitions'. push_definition definitions mode d = Inr definitions'
              \<and> map fst definitions' = map fst definitions))
   \<and> (map_of definitions mode = None \<and> array_index mode \<noteq> None
        \<and> (\<forall>k \<in> set (map fst definitions). array_index k = None)
      \<longrightarrow> push_definition definitions mode d = Inr ((mode, [d]) # definitions))"
proof (intro conjI impI)
  assume "s_colorSchemes settings = None"
  then show "fileStringCSSFromProcessedObject ((mode0, lines0) # later) settings key
          = [''/* '' @ key @ '': '' @ mode0 @ '' (default) */'',
             '':root {'',
             drawCSSPropLines (Some lines0) ''  '',
             ''}'']
            @ concat (map (\<lambda>(mode, lines).
                [''/* '' @ key @ '': '' @ mode @ '' */'',
                 ''.wds-theme-'' @ key @ ''-'' @ mode @ '' {'',
                 drawCSSPropLines (Some lines) ''  '',
                 ''}'']) later)"
    using map_enumerate_after_first
      [of "\<lambda>(i, (k, ls)).
              (if i = 0 then [''/* '' @ key @ '': '' @ k @ '' (default) */'', '':root {'']
               else [''/* '' @ key @ '': '' @ k @ '' */'',
                     ''.'' @ TOKEN_PREFIX @ ''theme-'' @ key @ ''-'' @ k @ '' {''])
              @ [drawCSSPropLines (Some ls) ''  '', ''}'']"
          "\<lambda>(mode, lines).
                [''/* '' @ key @ '': '' @ mode @ '' */'',
                 ''.wds-theme-'' @ key @ ''-'' @ mode @ '' {'',
                 drawCSSPropLines (Some lines) ''  '',
                 ''}'']" 0 later]
    by (simp add: fileStringCSSFromProcessedObject_def TOKEN_PREFIX_def case_prod_beta)
next
  assume "map_of definitions mode = None \<and> mode \<notin> set Object_prototype
        \<and> array_index mode = None"
  then show "push_definition definitions mode d = Inr (definitions @ [(mode, [d])])"
    by (simp add: push_definition_def js_index_def obj_set_def insert_key_plain)
next
  assume "map_of definitions mode \<noteq> None"
  then obtain ds where "map_of definitions mode = Some ds" by blast
  then have "push_definition definitions mode d = Inr (obj_set definitions mode (ds @ [d]))
      \<and> map fst (obj_set definitions mode (ds @ [d])) = map fst definitions"
    by (simp add: push_definition_def js_index_def obj_set_def keys_overwrite)
  then show "\<exists>definitions'. push_definition definitions mode d = Inr definitions'
              \<and> map fst definitions' = map fst definitions"
    by blast
next
  assume a: "map_of definitions mode = None \<and> array_index mode \<noteq> None
        \<and> (\<forall>k \<in> set (map fst definitions). array_index k = None)"
  then have "mode \<notin> set Object_prototype" by (simp add: array_index_not_inherited)
  with a show "push_definition definitions mode d = Inr ((mode, [d]) # definitions)"
    by (simp add: push_definition_def js_index_def obj_set_def insert_key_front)
qed

text \<open>
  Two modes, \<^verbatim>\<open>light\<close> written first and \<^verbatim>\<open>dark\<close> second: \<^verbatim>\<open>light\<close> is the
  \<^verbatim>\<open>:root\<close> block and \<^verbatim>\<open>dark\<close> the class \<^verbatim>\<open>.wds-theme-c-dark\<close>. A mode named \<^verbatim>\<open>2\<close>
  written after \<^verbatim>\<open>light\<close> is enumerated before it.
\<close>

theorem theme_block_naming_witness:
  "push_definition [] ''light''
     \<lparr>d_property = ''--wds-c-x'', d_propertyName = ''wdsCX'',
      d_figmaId = Some (JStr ''V:1''), d_description = JStr [],
      d_value = JStr ''a'', d_type = JStr []\<rparr>
   = Inr [(''light'', [\<lparr>d_property = ''--wds-c-x'', d_propertyName = ''wdsCX'',
            d_figmaId = Some (JStr ''V:1''), d_description = JStr [],
            d_value = JStr ''a'', d_type = JStr []\<rparr>])]
   \<and> push_definition
        [(''light'', [\<lparr>d_property = ''--wds-c-x'', d_propertyName = ''wdsCX'',
            d_figmaId = Some (JStr ''V:1''), d_description = JStr [],
            d_value = JStr ''a'', d_type = JStr []\<rparr>])]
        ''dark''
        \<lparr>d_property = ''--wds-c-x'', d_propertyName = ''wdsCX'',
         d_figmaId = Some (JStr ''V:1''), d_description = JStr [],
         d_value = JStr ''b'', d_type = JStr []\<rparr>
     = Inr [(''light'', [\<lparr>d_property = ''--wds-c-x'', d_propertyName = ''wdsCX'',
              d_figmaId = Some (JStr ''V:1''), d_description = JStr [],
              d_value = JStr ''a'', d_type = JStr []\<rparr>]),
            (''dark'', [\<lparr>d_property = ''--wds-c-x'', d_propertyName = ''wdsCX'',
              d_figmaId = Some (JStr ''V:1''), d_description = JStr [],
              d_value = JStr ''b'', d_type = JStr []\<rparr>])]
   \<and> fileStringCSSFromProcessedObject
        [(''light'', [\<lparr>d_property = ''--wds-c-x'', d_propertyName = ''wdsCX'',
              d_figmaId = Some (JStr ''V:1''), d_description = JStr [],
              d_value = JStr ''a'', d_type = JStr []\<rparr>]),
         (''dark'', [\<lparr>d_property = ''--wds-c-x'', d_propertyName = ''wdsCX'',
              d_figmaId = Some (JStr ''V:1''), d_description = JStr [],
              d_value = JStr ''b'', d_type = JStr []\<rparr>])]
        (plain_settings ''c'') ''c''
     = [''/* c: light (default) */'', '':root {'', ''  --wds-c-x: a;'', ''}'',
        ''/* c: dark */'', ''.wds-theme-c-dark {'', ''  --wds-c-x: b;'', ''}'']
   \<and> (\<exists>definitions'. push_definition
        [(''light'', [\<lparr>d_property = ''--wds-c-x'', d_propertyName = ''wdsCX'',
            d_figmaId = Some (JStr ''V:1''), d_description = JStr [],
            d_value = JStr ''a'', d_type = JStr []\<rparr>])]
        ''light''
        \<lparr>d_property = ''--wds-c-x'', d_propertyName = ''wdsCX'',
         d_figmaId = Some (JStr ''V:1''), d_description = JStr [],
         d_value = JStr ''b'', d_type = JStr []\<rparr> = Inr definitions'
        \<and> map fst definitions' = [''light''])
   \<and> push_definition
        [(''light'', [\<lparr>d_property = ''--wds-c-x'', d_propertyName = ''wdsCX'',
            d_figmaId = Some (JStr ''V:1''), d_description = JStr [],
            d_value = JStr ''a'', d_type = JStr []\<rparr>])]
        ''2''
        \<lparr>d_property = ''--wds-c-x'', d_propertyName = ''wdsCX'',
         d_figmaId = Some (JStr ''V:1''), d_description = JStr [],
         d_value = JStr ''b'', d_type = JStr []\<rparr>
     = Inr [(''2'', [\<lparr>d_property = ''--wds-c-x'', d_propertyName = ''wdsCX'',
              d_figmaId = Some (JStr ''V:1''), d_description = JStr [],
              d_value = JStr ''b'', d_type = JStr []\<rparr>]),
            (''light'', [\<lparr>d_property = ''--wds-c-x'', d_propertyName = ''wdsCX'',
              d_figmaId = Some (JStr ''V:1''), d_description = JStr [],
              d_value = JStr ''a'', d_type = JStr []\<rparr>])]"
proof -
  let ?a = "\<lparr>d_property = ''--wds-c-x'', d_propertyName = ''wdsCX'',
            d_figmaId = Some (JStr ''V:1''), d_description = JStr [],
            d_value = JStr ''a'', d_type = JStr []\<rparr>"
  let ?b = "\<lparr>d_property = ''--wds-c-x'', d_propertyName = ''wdsCX'',
         d_figmaId = Some (JStr ''V:1''), d_description = JStr [],
         d_value = JStr ''b'', d_type = JStr []\<rparr>"
  let ?s = "plain_settings ''c''"
  note naming = theme_block_naming
  have plain: "array_index ''light'' = None" "array_index ''dark'' = None"
    by (simp_all add: array_index_def is_digit_def)
  have own: "''light'' \<notin> set Object_prototype" "''dark'' \<notin> set Object_prototype"
    by (simp_all add: Object_prototype_def)
  have index: "array_index ''2'' \<noteq> None"
    by (simp add: array_index_def is_digit_def int_of_digits_def digit_val_def)
  have p1: "push_definition [] ''light'' ?a = Inr [(''light'', [?a])]"
    using naming [of ?s "''light''" "[]" "[]" "''c''" "[]" "''light''" ?a] plain own by simp
  have p2: "push_definition [(''light'', [?a])] ''dark'' ?b
      = Inr [(''light'', [?a]), (''dark'', [?b])]"
    using naming [of ?s "''light''" "[]" "[]" "''c''" "[(''light'', [?a])]" "''dark''" ?b] plain own
    by simp
  have p3: "\<exists>definitions'. push_definition [(''light'', [?a])] ''light'' ?b = Inr definitions'
      \<and> map fst definitions' = [''light'']"
    using naming [of ?s "''light''" "[]" "[]" "''c''" "[(''light'', [?a])]" "''light''" ?b]
    by simp
  have p4: "push_definition [(''light'', [?a])] ''2'' ?b = Inr [(''2'', [?b]), (''light'', [?a])]"
    using naming [of ?s "''light''" "[]" "[]" "''c''" "[(''light'', [?a])]" "''2''" ?b] plain index
    by simp
  have none: "s_colorSchemes ?s = None" by (simp add: plain_settings_def)
  have draw: "drawCSSPropLines (Some [?a]) ''  '' = ''  --wds-c-x: a;''"
      "drawCSSPropLines (Some [?b]) ''  '' = ''  --wds-c-x: b;''"
    by (simp_all add: drawCSSPropLines_def sort_by_property_def)
  have out: "fileStringCSSFromProcessedObject [(''light'', [?a]), (''dark'', [?b])] ?s ''c''
      = [''/* c: light (default) */'', '':root {'', ''  --wds-c-x: a;'', ''}'',
         ''/* c: dark */'', ''.wds-theme-c-dark {'', ''  --wds-c-x: b;'', ''}'']"
    using naming [of ?s "''light''" "[?a]" "[(''dark'', [?b])]" "''c''" "[]" "''light''" ?a]
      none draw
    by simp
  from p1 p2 p3 p4 out show ?thesis by blast
qed

text \<open>
  The claim names the later blocks \<^verbatim>\<open>theme-scope-<collectionKey>-<mode>\<close> and makes the
  mode written first the \<^verbatim>\<open>:root\<close> block. Here \<^verbatim>\<open>light\<close> is written first and
  \<^verbatim>\<open>2\<close> second: the \<^verbatim>\<open>:root\<close> block is the one of \<^verbatim>\<open>2\<close>, and \<^verbatim>\<open>light\<close> is the
  class \<^verbatim>\<open>.wds-theme-c-light\<close>.
\<close>

theorem theme_block_naming_counterexample:
  "push_definition [] ''light''
     \<lparr>d_property = ''--wds-c-x'', d_propertyName = ''wdsCX'',
      d_figmaId = Some (JStr ''V:1''), d_description = JStr [],
      d_value = JStr ''a'', d_type = JStr []\<rparr>
   = Inr [(''light'', [\<lparr>d_property = ''--wds-c-x'', d_propertyName = ''wdsCX'',
            d_figmaId = Some (JStr ''V:1''), d_description = JStr [],
            d_value = JStr ''a'', d_type = JStr []\<rparr>])]
   \<and> push_definition
        [(''light'', [\<lparr>d_property = ''--wds-c-x'', d_propertyName = ''wdsCX'',
            d_figmaId = Some (JStr ''V:1''), d_description = JStr [],
            d_value = JStr ''a'', d_type = JStr []\<rparr>])]
        ''2''
        \<lparr>d_property = ''--wds-c-x'', d_propertyName = ''wdsCX'',
         d_figmaId = Some (JStr ''V:1''), d_description = JStr [],
         d_value = JStr ''b'', d_type = JStr []\<rparr>
     = Inr [(''2'', [\<lparr>d_property = ''--wds-c-x'', d_propertyName = ''wdsCX'',
              d_figmaId = Some (JStr ''V:1''), d_description = JStr [],
              d_value = JStr ''b'', d_type = JStr []\<rparr>]),
            (''light'', [\<lparr>d_property = ''--wds-c-x'', d_propertyName = ''wdsCX'',
              d_figmaId = Some (JStr ''V:1''), d_description = JStr [],
              d_value = JStr ''a'', d_type = JStr []\<rparr>])]
   \<and> fileStringCSSFromProcessedObject
        [(''2'', [\<lparr>d_property = ''--wds-c-x'', d_propertyName = ''wdsCX'',
              d_figmaId = Some (JStr ''V:1''), d_description = JStr [],
              d_value = JStr ''b'', d_type = JStr []\<rparr>]),
         (''light'', [\<lparr>d_property = ''--wds-c-x'', d_propertyName = ''wdsCX'',
              d_figmaId = Some (JStr ''V:1''), d_description = JStr [],
              d_value = JStr ''a'', d_type = JStr []\<rparr>])]
        (plain_settings ''c'') ''c''
     = [''/* c: 2 (default) */'', '':root {'', ''  --wds-c-x: b;'', ''}'',
        ''/* c: light */'', ''.wds-theme-c-light {'', ''  --wds-c-x: a;'', ''}'']"
  by (simp add: fileStringCSSFromProcessedObject_def plain_settings_def TOKEN_PREFIX_def
        push_definition_def js_index_def Object_prototype_def obj_set_def enumerated_before_def
        array_index_def is_digit_def int_of_digits_def digit_val_def drawCSSPropLines_def
        sort_by_property_def)

section \<open>Properties of the collection loop\<close>














text \<open>The definitions that evaluating the pipeline on a concrete document unfolds.\<close>

lemmas token_eval =
  processTokenJSON_def ensureCollectionSettingsExist_def ensure_key_def process_key_def
  processCollection_def traverse.simps traverse_leaf_def extensionData_of_def
  getNamespaceData_def NAMESPACES_def has_property_def get_JObj or_else_def truthy_opt_def
  js_member_def js_index_def Object_prototype_def
  valueToCSS_def valueIsDigits_def parseInt_def int_of_digits_def digit_val_def
  div16_to_string_def strip_zeros_def show_nat.simps hyphenate_def strip_open_def
  strip_close_def js_replace_def js_includes_def valueWithReplacements_def js_toLowerCase_def
  lower_char_def upper_char_def property_of_def propertyName_of_def propertyNameFull_def
  capitalize_def is_alnum_def is_digit_def is_upper_def is_lower_def push_definition_def
  obj_set_def enumerated_before_def array_index_def fallback_settings_def plain_settings_def
  TOKEN_PREFIX_def CONVERT_TO_REM_def fileStringCSSFromProcessedObject_def
  drawCSSPropLines_def sort_by_property_def drawVariableSyntaxAndDescription_def
  sort_texts_def definitions_after_drawing_def drawn_modes_def file_header_def Let_def




section \<open>Properties of the value converter\<close>

lemma startsWith_append: "js_startsWith (p @ rest) p"
  by (induction p) auto

lemma split_at_first_here: "split_at_first (p @ rest) p = Some ([], rest)"
proof (cases "p @ rest")
  case Nil
  then show ?thesis by simp
next
  case (Cons c cs)
  have "js_startsWith (p @ rest) p" by (rule startsWith_append)
  with Cons have "split_at_first (p @ rest) p = Some ([], drop (length p) (p @ rest))" by simp
  then show ?thesis by simp
qed

lemma split_at_first_after_brace:
  assumes "p \<noteq> []" and "hd p \<noteq> CHR ''{''"
  shows "split_at_first (''{'' @ p @ rest) p = Some (''{'', rest)"
proof -
  have "\<not> js_startsWith (CHR ''{'' # (p @ rest)) p"
    using assms by (cases p) auto
  then have "split_at_first (CHR ''{'' # (p @ rest)) p
      = (case split_at_first (p @ rest) p of
           None \<Rightarrow> None
         | Some (pre, post) \<Rightarrow> Some (CHR ''{'' # pre, post))"
    by simp
  then show ?thesis by (simp add: split_at_first_here)
qed

lemma get_substitution_plain:
  "CHR ''$'' \<notin> set r \<Longrightarrow> get_substitution matched pre post r = r"
  by (induction matched pre post r rule: get_substitution.induct) auto

lemma js_replace_after_brace:
  "p \<noteq> [] \<Longrightarrow> hd p \<noteq> CHR ''{'' \<Longrightarrow> CHR ''$'' \<notin> set r \<Longrightarrow>
     js_replace (''{'' @ p @ rest) p r = ''{'' @ r @ rest"
  by (simp add: js_replace_def split_at_first_after_brace get_substitution_plain
        del: append.simps)

lemma js_join_cons: "js_join sep (x # xs) = x @ concat (map (\<lambda>k. sep @ k) xs)"
  by (induction xs arbitrary: x) auto

lemma hyphenate_append: "hyphenate (a @ b) = hyphenate a @ hyphenate b"
  by (simp add: hyphenate_def)

lemma hyphenate_plain:
  "CHR ''.'' \<notin> set s \<Longrightarrow> CHR '' '' \<notin> set s \<Longrightarrow> hyphenate s = s"
  by (induction s) (auto simp: hyphenate_def)

lemma hyphenate_path:
  "\<forall>k \<in> set path. CHR ''.'' \<notin> set k \<and> CHR '' '' \<notin> set k \<Longrightarrow>
     hyphenate (concat (map (\<lambda>k. ''.'' @ k) path)) = concat (map (\<lambda>k. ''-'' @ k) path)"
proof (induction path)
  case Nil
  show ?case by (simp add: hyphenate_def)
next
  case (Cons k path)
  then have "hyphenate k = k" by (simp add: hyphenate_plain)
  moreover have "hyphenate ''.'' = ''-''" by (simp add: hyphenate_def)
  ultimately show ?case using Cons by (simp add: hyphenate_append del: append.simps)
qed

lemma valueIsDigits_not_alias: "valueIsDigits t \<Longrightarrow> take 1 t \<noteq> ''{''"
  by (cases t) (auto simp: valueIsDigits_def Let_def is_digit_def split: if_splits)

text \<open>
  Claim C1 asks that an alias to a token of the same collection becomes the reference to
  the property that \<^verbatim>\<open>traverse\<close> gives that token, for leaves with modes and for leaves
  under \<^verbatim>\<open>default\<close> alike. The collection \<^verbatim>\<open>@c\<close> below has the token \<^verbatim>\<open>a\<close> and the
  token \<^verbatim>\<open>b\<close>, an alias to \<^verbatim>\<open>a\<close>. Without extension data, \<^verbatim>\<open>traverse\<close> passes the
  empty prefix to \<^verbatim>\<open>valueToCSS\<close>: \<^verbatim>\<open>a\<close> is the property \<^verbatim>\<open>--wds-c-a\<close> and the value
  of \<^verbatim>\<open>b\<close> is \<^verbatim>\<open>var(---a)\<close>. With the same alias as the value of a mode, the prefix is
  passed and the value is \<^verbatim>\<open>var(--wds-c-a)\<close>.
\<close>

theorem alias_default_mode_dangling:
  "traverse e []
     (JObj [(''a'', JObj [(''$value'', JStr ''#fff'')]),
            (''b'', JObj [(''$value'', JStr ''{@c.a}'')])])
     [] ''@c'' ''wds-c'' True (JStr []) [''wds-c'']
   = Inr [(''default'',
           [\<lparr>d_property = ''--wds-c-a'', d_propertyName = ''wdsCA'',
             d_figmaId = Some (JStr ''UNDEFINED''), d_description = JStr [],
             d_value = JStr ''#fff'', d_type = JStr []\<rparr>,
            \<lparr>d_property = ''--wds-c-b'', d_propertyName = ''wdsCB'',
             d_figmaId = Some (JStr ''UNDEFINED''), d_description = JStr [],
             d_value = JStr ''var(---a)'', d_type = JStr []\<rparr>])]
   \<and> traverse e []
     (JObj [(''a'', JObj [(''$value'', JStr ''#fff'')]),
            (''b'', JObj [(''$value'', JStr ''#000''),
                          (''$extensions'', JObj [(''com.figma.wds'',
                             JObj [(''figmaId'', JStr ''V:1''),
                                   (''modes'', JObj [(''light'', JStr ''{@c.a}'')])])])])])
     [] ''@c'' ''wds-c'' True (JStr []) [''wds-c'']
   = Inr [(''default'',
           [\<lparr>d_property = ''--wds-c-a'', d_propertyName = ''wdsCA'',
             d_figmaId = Some (JStr ''UNDEFINED''), d_description = JStr [],
             d_value = JStr ''#fff'', d_type = JStr []\<rparr>]),
          (''light'',
           [\<lparr>d_property = ''--wds-c-b'', d_propertyName = ''wdsCB'',
             d_figmaId = Some (JStr ''V:1''), d_description = JStr [],
             d_value = JStr ''var(--wds-c-a)'', d_type = JStr []\<rparr>])]"
  by (simp add: token_eval)

text \<open>
  Claim C3 asks for the value divided by 16, for decimal values too. \<^verbatim>\<open>valueToCSS\<close>
  divides \<^verbatim>\<open>parseInt(value)\<close>: for \<^verbatim>\<open>24.5\<close> the result is \<^verbatim>\<open>1.5rem\<close>, the sixteenth of
  24, where \<^verbatim>\<open>24.5 / 16\<close> is \<^verbatim>\<open>1.53125\<close>. Without the conversion the decimals stay:
  \<^verbatim>\<open>24.5px\<close>.
\<close>

theorem rem_conversion_truncates_decimals:
  "valueToCSS e ''--wds-size-space-600'' (JNum ''24.5'') definitionsKey True prefix
     = Inr (JStr ''1.5rem'')
   \<and> valueToCSS e ''--wds-size-space-600'' (JStr ''24.5'') definitionsKey True prefix
     = Inr (JStr ''1.5rem'')
   \<and> valueToCSS e ''--wds-size-space-600'' (JNum ''24'') definitionsKey True prefix
     = Inr (JStr ''1.5rem'')
   \<and> valueToCSS e ''--wds-size-space-600'' (JNum ''24.5'') definitionsKey False prefix
     = Inr (JStr ''24.5px'')"
  by (simp add: valueToCSS_def js_includes_def valueIsDigits_def is_digit_def parseInt_def
        int_of_digits_def digit_val_def div16_to_string_def show_nat.simps strip_zeros_def)

text \<open>
  What the converter does with a purely numeric value on a property path without
  \<^verbatim>\<open>weight\<close> and \<^verbatim>\<open>ratio-\<close>: with the conversion, the sixteenth of its integer part
  and \<^verbatim>\<open>rem\<close>; without it, the text of the value and \<^verbatim>\<open>px\<close>.
\<close>

theorem numeric_dimension:
  assumes "valueIsDigits t" and "v = JStr t \<or> v = JNum t"
    and "\<not> js_includes property ''weight''" and "\<not> js_includes property ''ratio-''"
  shows "valueToCSS e property v definitionsKey True prefix
           = Inr (JStr (div16_to_string e (parseInt t) @ ''rem''))
         \<and> valueToCSS e property v definitionsKey False prefix = Inr (JStr (t @ ''px''))"
proof -
  from assms(2) have "js_to_string v = t" and "v \<noteq> JNull" by auto
  moreover from assms(1) have "take 1 t \<noteq> ''{''" by (rule valueIsDigits_not_alias)
  ultimately show ?thesis
    using assms(1,3,4) by (simp add: valueToCSS_def Let_def)
qed

text \<open>The examples of the spec: 16 gives \<^verbatim>\<open>1rem\<close> and 24 gives \<^verbatim>\<open>1.5rem\<close>.\<close>

theorem numeric_dimension_witness:
  "valueToCSS \<lparr>KEY_PREFIX_COLLECTION = ''@'', round4 = js_to_string, quotient16 = (\<lambda>n. [])\<rparr>
     ''--wds-size-space-400'' (JNum ''16'') ''@size'' True ''wds-size'' = Inr (JStr ''1rem'')
   \<and> valueToCSS \<lparr>KEY_PREFIX_COLLECTION = ''@'', round4 = js_to_string, quotient16 = (\<lambda>n. [])\<rparr>
     ''--wds-size-space-600'' (JStr ''24'') ''@size'' True ''wds-size'' = Inr (JStr ''1.5rem'')
   \<and> valueToCSS \<lparr>KEY_PREFIX_COLLECTION = ''@'', round4 = js_to_string, quotient16 = (\<lambda>n. [])\<rparr>
     ''--wds-size-space-400'' (JNum ''16'') ''@size'' False ''wds-size'' = Inr (JStr ''16px'')"
proof -
  let ?e = "\<lparr>KEY_PREFIX_COLLECTION = ''@'', round4 = js_to_string, quotient16 = (\<lambda>n. [])\<rparr>"
  have d: "valueIsDigits ''16''" "valueIsDigits ''24''"
    by (simp_all add: valueIsDigits_def is_digit_def)
  have p: "\<not> js_includes ''--wds-size-space-400'' ''weight''"
      "\<not> js_includes ''--wds-size-space-400'' ''ratio-''"
      "\<not> js_includes ''--wds-size-space-600'' ''weight''"
      "\<not> js_includes ''--wds-size-space-600'' ''ratio-''"
    by (simp_all add: js_includes_def)
  have n: "div16_to_string ?e (parseInt ''16'') = ''1''"
      "div16_to_string ?e (parseInt ''24'') = ''1.5''"
    by (simp_all add: parseInt_def is_digit_def int_of_digits_def digit_val_def
          div16_to_string_def show_nat.simps strip_zeros_def)
  have a: "valueToCSS ?e ''--wds-size-space-400'' (JNum ''16'') ''@size'' True ''wds-size''
        = Inr (JStr (div16_to_string ?e (parseInt ''16'') @ ''rem''))
      \<and> valueToCSS ?e ''--wds-size-space-400'' (JNum ''16'') ''@size'' False ''wds-size''
        = Inr (JStr (''16'' @ ''px''))"
    using d p by (intro numeric_dimension) simp_all
  have b: "valueToCSS ?e ''--wds-size-space-600'' (JStr ''24'') ''@size'' True ''wds-size''
        = Inr (JStr (div16_to_string ?e (parseInt ''24'') @ ''rem''))
      \<and> valueToCSS ?e ''--wds-size-space-600'' (JStr ''24'') ''@size'' False ''wds-size''
        = Inr (JStr (''24'' @ ''px''))"
    using d p by (intro numeric_dimension) simp_all
  from a b n show ?thesis by simp
qed

text \<open>
  The alias rewrite for a leaf with modes, where \<^verbatim>\<open>traverse\<close> passes the prefix of the
  collection: the alias to the token at \<open>path\<close> becomes the reference to the property that
  \<^verbatim>\<open>traverse\<close> builds from the prefix and \<open>path\<close>, provided the prefix and the path
  segments hold no dot and no space, the prefix no dollar sign, and the key of the
  collection is not empty and does not start with a brace.
\<close>

theorem alias_round_trip:
  assumes "definitionsKey \<noteq> []" and "hd definitionsKey \<noteq> CHR ''{''"
    and "CHR ''$'' \<notin> set prefix" and "CHR ''.'' \<notin> set prefix" and "CHR '' '' \<notin> set prefix"
    and "\<forall>k \<in> set path. CHR ''.'' \<notin> set k \<and> CHR '' '' \<notin> set k"
  shows "valueToCSS e property (JStr (alias_to definitionsKey path)) definitionsKey
           convertPixelToRem prefix
         = Inr (JStr (''var('' @ property_of (prefix # path) @ '')''))"
proof -
  let ?dots = "concat (map (\<lambda>k. ''.'' @ k) path)"
  let ?hyphens = "concat (map (\<lambda>k. ''-'' @ k) path)"
  have shape: "alias_to definitionsKey path = ''{'' @ definitionsKey @ (?dots @ ''}'')"
    by (simp add: alias_to_def js_join_cons)
  have "js_replace (''{'' @ definitionsKey @ (?dots @ ''}'')) definitionsKey prefix
      = ''{'' @ prefix @ (?dots @ ''}'')"
    using assms(1,2,3) by (rule js_replace_after_brace)
  then have "hyphenate (js_replace (alias_to definitionsKey path) definitionsKey prefix)
      = ''{'' @ prefix @ ?hyphens @ ''}''"
    using assms(4,5,6)
    by (simp add: shape hyphenate_append hyphenate_path hyphenate_plain del: append.simps)
  then have "strip_close (strip_open
        (hyphenate (js_replace (alias_to definitionsKey path) definitionsKey prefix)))
      = prefix @ ?hyphens"
    by (simp add: strip_open_def strip_close_def butlast_append)
  moreover have "property_of (prefix # path) = ''--'' @ prefix @ ?hyphens"
    by (simp add: property_of_def js_join_cons)
  moreover have "take 1 (alias_to definitionsKey path) = ''{''"
    by (simp add: alias_to_def)
  ultimately show ?thesis
    by (simp add: valueToCSS_def)
qed

text \<open>The collection \<^verbatim>\<open>@color_primitives\<close> with the prefix \<^verbatim>\<open>wds-color\<close>.\<close>

theorem alias_round_trip_witness:
  "valueToCSS \<lparr>KEY_PREFIX_COLLECTION = ''@'', round4 = js_to_string, quotient16 = (\<lambda>n. [])\<rparr>
     ''--wds-color-text''
     (JStr ''{@color_primitives.blue.500}'') ''@color_primitives'' True ''wds-color''
   = Inr (JStr ''var(--wds-color-blue-500)'')"
proof -
  have "valueToCSS \<lparr>KEY_PREFIX_COLLECTION = ''@'', round4 = js_to_string, quotient16 = (\<lambda>n. [])\<rparr>
     ''--wds-color-text''
     (JStr (alias_to ''@color_primitives'' [''blue'', ''500''])) ''@color_primitives'' True
     ''wds-color''
   = Inr (JStr (''var('' @ property_of [''wds-color'', ''blue'', ''500''] @ '')''))"
    by (intro alias_round_trip) simp_all
  then show ?thesis by (simp add: alias_to_def property_of_def)
qed

section \<open>Properties of the traversal\<close>

lemma declares_iff:
  "declares defs p \<longleftrightarrow> (\<exists>mode ds d. map_of defs mode = Some ds \<and> d \<in> set ds \<and> d_property d = p)"
proof
  assume "declares defs p"
  then show "\<exists>mode ds d. map_of defs mode = Some ds \<and> d \<in> set ds \<and> d_property d = p"
    unfolding declares_def list_ex_iff by (auto split: option.splits) blast
next
  assume "\<exists>mode ds d. map_of defs mode = Some ds \<and> d \<in> set ds \<and> d_property d = p"
  then obtain mode ds d where m: "map_of defs mode = Some ds" and d: "d \<in> set ds"
    and p: "d_property d = p" by blast
  from m have "mode \<in> set (map fst defs)"
    by (metis map_of_eq_None_iff option.distinct(1) set_map)
  with m d p show "declares defs p"
    unfolding declares_def list_ex_iff by (intro bexI [of _ mode]) auto
qed

lemma push_definition_result:
  "push_definition defs mode d = Inr defs' \<Longrightarrow>
     defs' = obj_set defs mode ((case map_of defs mode of None \<Rightarrow> [] | Some ds \<Rightarrow> ds) @ [d])"
  by (auto simp: push_definition_def js_index_def split: option.splits if_splits)

lemma push_definition_keeps:
  assumes "push_definition defs mode d = Inr defs'" and "declares defs p"
  shows "declares defs' p"
proof -
  note r = push_definition_result [OF assms(1)]
  from assms(2) obtain m ds x where m: "map_of defs m = Some ds" and x: "x \<in> set ds"
    and p: "d_property x = p" by (auto simp: declares_iff)
  show ?thesis
  proof (cases "m = mode")
    case True
    with m have "map_of defs' mode = Some (ds @ [d])"
      by (simp add: r map_of_obj_set)
    with x p show ?thesis unfolding declares_iff by fastforce
  next
    case False
    with m have "map_of defs' m = Some ds"
      by (simp add: r map_of_obj_set)
    with x p show ?thesis unfolding declares_iff by blast
  qed
qed

lemma push_definition_adds:
  assumes "push_definition defs mode d = Inr defs'" and "d_property d = p"
  shows "declares defs' p"
proof -
  note r = push_definition_result [OF assms(1)]
  have "map_of defs' mode
      = Some ((case map_of defs mode of None \<Rightarrow> [] | Some ds \<Rightarrow> ds) @ [d])"
    by (simp add: r map_of_obj_set)
  with assms(2) show ?thesis unfolding declares_iff by fastforce
qed

text \<open>The loop over the modes of a leaf.\<close>

lemma mode_fold_error:
  "fold (\<lambda>(mode, raw) acc. case acc of Inl err \<Rightarrow> Inl err | Inr defs \<Rightarrow> f mode raw defs)
     ms (Inl err) = Inl err"
  by (induction ms) (auto split: prod.splits)

lemma mode_fold_keeps:
  assumes step: "\<And>mode raw defs defs'. f mode raw defs = Inr defs' \<Longrightarrow> P defs \<Longrightarrow> P defs'"
  shows "fold (\<lambda>(mode, raw) acc. case acc of Inl err \<Rightarrow> Inl err | Inr defs \<Rightarrow> f mode raw defs)
           ms (Inr defs) = Inr defs' \<Longrightarrow> P defs \<Longrightarrow> P defs'"
proof (induction ms arbitrary: defs)
  case Nil
  then show ?case by simp
next
  case (Cons a ms)
  obtain mode raw where a: "a = (mode, raw)" by (cases a)
  show ?case
  proof (cases "f mode raw defs")
    case (Inl err)
    with Cons.prems a show ?thesis by (simp add: mode_fold_error)
  next
    case (Inr defs1)
    with Cons.prems a have
      "fold (\<lambda>(mode, raw) acc. case acc of Inl err \<Rightarrow> Inl err | Inr defs \<Rightarrow> f mode raw defs)
         ms (Inr defs1) = Inr defs'" by simp
    moreover from Inr Cons.prems(2) have "P defs1" by (rule step)
    ultimately show ?thesis by (rule Cons.IH)
  qed
qed

lemma mode_fold_adds:
  assumes keeps: "\<And>mode raw defs defs'. f mode raw defs = Inr defs' \<Longrightarrow> P defs \<Longrightarrow> P defs'"
    and adds: "\<And>mode raw defs defs'. f mode raw defs = Inr defs' \<Longrightarrow> P defs'"
  shows "fold (\<lambda>(mode, raw) acc. case acc of Inl err \<Rightarrow> Inl err | Inr defs \<Rightarrow> f mode raw defs)
           ms (Inr defs) = Inr defs' \<Longrightarrow> ms \<noteq> [] \<Longrightarrow> P defs'"
proof -
  assume run: "fold (\<lambda>(mode, raw) acc. case acc of Inl err \<Rightarrow> Inl err | Inr defs \<Rightarrow> f mode raw defs)
           ms (Inr defs) = Inr defs'" and ne: "ms \<noteq> []"
  from ne obtain mode raw rest where ms: "ms = (mode, raw) # rest" by (cases ms) auto
  show "P defs'"
  proof (cases "f mode raw defs")
    case (Inl err)
    with run ms show ?thesis by (simp add: mode_fold_error)
  next
    case (Inr defs1)
    with run ms have
      "fold (\<lambda>(mode, raw) acc. case acc of Inl err \<Rightarrow> Inl err | Inr defs \<Rightarrow> f mode raw defs)
         rest (Inr defs1) = Inr defs'" by simp
    moreover from Inr have "P defs1" by (rule adds)
    ultimately show ?thesis using mode_fold_keeps [of f P rest defs1 defs'] keeps by blast
  qed
qed

lemma traverse_leaf_keeps:
  assumes "traverse_leaf e defs object repl dk pfx conv ty keys = Inr defs'"
    and "declares defs p"
  shows "declares defs' p"
proof (cases "modes_of object")
  case None
  with assms show ?thesis
    by (auto simp: traverse_leaf_def modes_of_def Let_def
          split: option.splits sum.splits if_splits elim: push_definition_keeps)
next
  case (Some ms)
  let ?f = "\<lambda>mode raw defs.
     case valueToCSS e (property_of keys) raw dk conv pfx of
       Inl err \<Rightarrow> Inl err
     | Inr css \<Rightarrow>
         push_definition defs mode
           \<lparr>d_property = property_of keys,
            d_propertyName = propertyName_of keys,
            d_figmaId = (case extensionData_of object of
                           None \<Rightarrow> None | Some ext \<Rightarrow> get ext ''figmaId''),
            d_description = or_else (get object ''$description'') (JStr ''''),
            d_value = valueWithReplacements repl css,
            d_type = ty\<rparr>"
  from Some assms(1) have run:
    "fold (\<lambda>(mode, raw) acc. case acc of Inl err \<Rightarrow> Inl err | Inr defs \<Rightarrow> ?f mode raw defs)
       (own_entries ms) (Inr defs) = Inr defs'"
    by (simp add: traverse_leaf_def modes_of_def Let_def)
  have step: "\<And>mode raw defs defs'. ?f mode raw defs = Inr defs' \<Longrightarrow> declares defs p
      \<Longrightarrow> declares defs' p"
    by (auto split: sum.splits elim: push_definition_keeps)
  from mode_fold_keeps [of ?f "\<lambda>defs. declares defs p", OF step run assms(2)]
  show ?thesis .
qed

lemma traverse_leaf_adds:
  assumes "traverse_leaf e defs object repl dk pfx conv ty keys = Inr defs'"
    and "\<forall>ms. modes_of object = Some ms \<longrightarrow> own_entries ms \<noteq> []"
  shows "declares defs' (property_of keys)"
proof (cases "modes_of object")
  case None
  with assms(1) obtain d where "push_definition defs ''default'' d = Inr defs'"
    and "d_property d = property_of keys"
    by (auto simp: traverse_leaf_def modes_of_def Let_def
          split: option.splits sum.splits if_splits)
  then show ?thesis by (rule push_definition_adds)
next
  case (Some ms)
  let ?f = "\<lambda>mode raw defs.
     case valueToCSS e (property_of keys) raw dk conv pfx of
       Inl err \<Rightarrow> Inl err
     | Inr css \<Rightarrow>
         push_definition defs mode
           \<lparr>d_property = property_of keys,
            d_propertyName = propertyName_of keys,
            d_figmaId = (case extensionData_of object of
                           None \<Rightarrow> None | Some ext \<Rightarrow> get ext ''figmaId''),
            d_description = or_else (get object ''$description'') (JStr ''''),
            d_value = valueWithReplacements repl css,
            d_type = ty\<rparr>"
  from Some assms(1) have run:
    "fold (\<lambda>(mode, raw) acc. case acc of Inl err \<Rightarrow> Inl err | Inr defs \<Rightarrow> ?f mode raw defs)
       (own_entries ms) (Inr defs) = Inr defs'"
    by (simp add: traverse_leaf_def modes_of_def Let_def)
  from Some assms(2) have ne: "own_entries ms \<noteq> []" by simp
  have keeps: "\<And>mode raw defs defs'. ?f mode raw defs = Inr defs'
      \<Longrightarrow> declares defs (property_of keys) \<Longrightarrow> declares defs' (property_of keys)"
    by (auto split: sum.splits elim: push_definition_keeps)
  have adds: "\<And>mode raw defs defs'. ?f mode raw defs = Inr defs'
      \<Longrightarrow> declares defs' (property_of keys)"
  proof -
    fix mode raw defs defs'
    assume "?f mode raw defs = Inr defs'"
    then obtain d where "push_definition defs mode d = Inr defs'"
      and "d_property d = property_of keys"
      by (auto split: sum.splits)
    then show "declares defs' (property_of keys)" by (rule push_definition_adds)
  qed
  from mode_fold_adds [of ?f "\<lambda>defs. declares defs (property_of keys)", OF keeps adds run ne]
  show ?thesis .
qed

text \<open>The loop over the children of a node.\<close>

lemma child_fold_error:
  "fold (\<lambda>(key, child) acc. case acc of Inl err \<Rightarrow> Inl err | Inr defs \<Rightarrow> g key child defs)
     kvs (Inl err) = Inl err"
  by (induction kvs) (auto split: prod.splits)

lemma child_fold_keeps:
  assumes step: "\<And>key child defs defs'. (key, child) \<in> set kvs \<Longrightarrow>
      g key child defs = Inr defs' \<Longrightarrow> P defs \<Longrightarrow> P defs'"
  shows "fold (\<lambda>(key, child) acc. case acc of Inl err \<Rightarrow> Inl err | Inr defs \<Rightarrow> g key child defs)
           kvs (Inr defs) = Inr defs' \<Longrightarrow> P defs \<Longrightarrow> P defs'"
  using step
proof (induction kvs arbitrary: defs)
  case Nil
  then show ?case by simp
next
  case (Cons a kvs)
  obtain key child where a: "a = (key, child)" by (cases a)
  show ?case
  proof (cases "g key child defs")
    case (Inl err)
    with Cons.prems a show ?thesis by (simp add: child_fold_error)
  next
    case (Inr defs1)
    with Cons.prems(1) a have run:
      "fold (\<lambda>(key, child) acc. case acc of Inl err \<Rightarrow> Inl err | Inr defs \<Rightarrow> g key child defs)
         kvs (Inr defs1) = Inr defs'" by simp
    from Inr Cons.prems(2) a have p1: "P defs1" using Cons.prems(3) [of key child defs defs1] by simp
    show ?thesis
    proof (rule Cons.IH [OF run p1])
      fix key child defs defs'
      assume "(key, child) \<in> set kvs" "g key child defs = Inr defs'" "P defs"
      then show "P defs'" using Cons.prems(3) [of key child defs defs'] by simp
    qed
  qed
qed

lemma traverse_keeps:
  "traverse e defs object repl dk pfx conv ty keys = Inr defs' \<Longrightarrow> declares defs p
     \<Longrightarrow> declares defs' p"
proof (induction e defs object repl dk pfx conv ty keys arbitrary: defs'
         rule: traverse.induct)
  case (1 e definitions object replacements definitionsKey prefix convertPixelToRem
          currentType keys)
  from "1.prems"(1) obtain leaf where hp: "has_property ''$value'' object = Inr leaf"
    by (subst (asm) traverse.simps) (auto split: sum.splits)
  show ?case
  proof (cases leaf)
    case True
    with hp "1.prems"(1) have
      "traverse_leaf e definitions object replacements definitionsKey prefix
         convertPixelToRem (or_else (get object ''$type'') currentType) keys = Inr defs'"
      by (subst (asm) traverse.simps) simp
    then show ?thesis using "1.prems"(2) by (rule traverse_leaf_keeps)
  next
    case False
    then have nl: "\<not> leaf" .
    let ?g = "\<lambda>key child defs.
       if take 1 key \<noteq> ''$'' then
         traverse e defs child replacements definitionsKey prefix convertPixelToRem
           (or_else (get object ''$type'') currentType) (keys @ [key])
       else Inr defs"
    from False hp have
      "traverse e definitions object replacements definitionsKey prefix convertPixelToRem
         currentType keys
       = fold (\<lambda>(key, child) acc. case acc of Inl err \<Rightarrow> Inl err | Inr defs \<Rightarrow> ?g key child defs)
           (own_entries object) (Inr definitions)"
      by (subst traverse.simps) simp
    with "1.prems"(1) have run:
      "fold (\<lambda>(key, child) acc. case acc of Inl err \<Rightarrow> Inl err | Inr defs \<Rightarrow> ?g key child defs)
         (own_entries object) (Inr definitions) = Inr defs'"
      by simp
    have step: "\<And>key child defs defs'. (key, child) \<in> set (own_entries object) \<Longrightarrow>
        ?g key child defs = Inr defs' \<Longrightarrow> declares defs p \<Longrightarrow> declares defs' p"
    proof -
      fix key child defs defs'
      assume mem: "(key, child) \<in> set (own_entries object)"
        and g: "?g key child defs = Inr defs'" and d: "declares defs p"
      show "declares defs' p"
      proof (cases "take 1 key \<noteq> ''$''")
        case True
        with g have t: "traverse e defs child replacements definitionsKey prefix convertPixelToRem
           (or_else (get object ''$type'') currentType) (keys @ [key]) = Inr defs'" by simp
        from "1.IH" [OF hp nl mem refl True t d] show ?thesis .
      next
        case False
        with g d show ?thesis by simp
      qed
    qed
    from child_fold_keeps [of "own_entries object" ?g "\<lambda>defs. declares defs p", OF step run "1.prems"(2)]
    show ?thesis .
  qed
qed

text \<open>
  Path-to-property mapping. A leaf that \<^verbatim>\<open>traverse\<close> reaches along \<open>path\<close>, and that has
  no modes or at least one, gets a definition of the custom property whose name is
  \<^verbatim>\<open>--\<close> and the keys so far and the segments of the path, joined by hyphens, whenever
  the traversal ends without an error.
\<close>

theorem traverse_property_at_path:
  assumes "leaf_at object path = Some leaf"
    and "\<forall>ms. modes_of leaf = Some ms \<longrightarrow> own_entries ms \<noteq> []"
    and "traverse e defs object repl dk pfx conv ty keys = Inr defs'"
  shows "declares defs' (property_of (keys @ path))"
  using assms
proof (induction path arbitrary: object keys defs defs' ty)
  case Nil
  from Nil.prems(1) have hp: "has_property ''$value'' object = Inr True" and leaf: "leaf = object"
    by (simp_all split: if_splits)
  from hp Nil.prems(3) have
    "traverse_leaf e defs object repl dk pfx conv (or_else (get object ''$type'') ty) keys
       = Inr defs'"
    by (subst (asm) traverse.simps) simp
  then show ?case using Nil.prems(2) leaf by (simp add: traverse_leaf_adds)
next
  case (Cons key path)
  from Cons.prems(1) obtain child where hp: "has_property ''$value'' object = Inr False"
    and nd: "take 1 key \<noteq> ''$''"
    and child: "map_of (own_entries object) key = Some child"
    and at: "leaf_at child path = Some leaf"
    by (auto split: if_splits option.splits)
  define g where "g = (\<lambda>key child defs.
     if take 1 key \<noteq> ''$'' then
       traverse e defs child repl dk pfx conv (or_else (get object ''$type'') ty) (keys @ [key])
     else Inr defs)"
  let ?step = "\<lambda>(key, child) acc. case acc of Inl err \<Rightarrow> Inl err | Inr defs \<Rightarrow> g key child defs"
  from hp have "traverse e defs object repl dk pfx conv ty keys
      = fold ?step (own_entries object) (Inr defs)"
    by (subst traverse.simps) (simp add: g_def)
  with Cons.prems(3) have run: "fold ?step (own_entries object) (Inr defs) = Inr defs'" by simp
  from child have "(key, child) \<in> set (own_entries object)" by (rule map_of_SomeD)
  then obtain pre post where split: "own_entries object = pre @ (key, child) # post"
    by (meson split_list)
  from run split have run2:
    "fold ?step post (?step (key, child) (fold ?step pre (Inr defs))) = Inr defs'" by simp
  obtain d1 where pre: "fold ?step pre (Inr defs) = Inr d1"
  proof (cases "fold ?step pre (Inr defs)")
    case (Inl err)
    with run2 have False by (simp add: child_fold_error)
    then show ?thesis ..
  next
    case (Inr d1)
    then show ?thesis by (rule that)
  qed
  obtain d2 where here: "g key child d1 = Inr d2"
  proof (cases "g key child d1")
    case (Inl err)
    with run2 pre have False by (simp add: child_fold_error)
    then show ?thesis ..
  next
    case (Inr d2)
    then show ?thesis by (rule that)
  qed
  with nd have t: "traverse e d1 child repl dk pfx conv (or_else (get object ''$type'') ty)
      (keys @ [key]) = Inr d2" by (simp add: g_def)
  from Cons.IH [OF at Cons.prems(2) t]
  have d2: "declares d2 (property_of (keys @ key # path))" by simp
  from run2 pre here have rest: "fold ?step post (Inr d2) = Inr defs'" by simp
  have step: "\<And>k c d d'. (k, c) \<in> set post \<Longrightarrow>
      g k c d = Inr d' \<Longrightarrow> declares d (property_of (keys @ key # path))
      \<Longrightarrow> declares d' (property_of (keys @ key # path))"
    by (auto simp: g_def traverse_keeps split: if_splits)
  from child_fold_keeps [of post g "\<lambda>defs. declares defs (property_of (keys @ key # path))",
      OF step rest d2]
  show ?case .
qed

theorem traverse_property_at_path_witness:
  "leaf_at (JObj [(''a'', JObj [(''b'', JObj [(''$value'', JStr ''x'')])])]) [''a'', ''b'']
     = Some (JObj [(''$value'', JStr ''x'')])
   \<and> modes_of (JObj [(''$value'', JStr ''x'')]) = None
   \<and> traverse \<lparr>KEY_PREFIX_COLLECTION = ''@'', round4 = js_to_string, quotient16 = (\<lambda>n. [])\<rparr> []
        (JObj [(''a'', JObj [(''b'', JObj [(''$value'', JStr ''x'')])])]) [] ''@c'' ''wds-c'' True
        (JStr []) [''wds-c'']
      = Inr [(''default'',
              [\<lparr>d_property = ''--wds-c-a-b'', d_propertyName = ''wdsCAB'',
                d_figmaId = Some (JStr ''UNDEFINED''), d_description = JStr [],
                d_value = JStr ''x'', d_type = JStr []\<rparr>])]
   \<and> declares [(''default'',
              [\<lparr>d_property = ''--wds-c-a-b'', d_propertyName = ''wdsCAB'',
                d_figmaId = Some (JStr ''UNDEFINED''), d_description = JStr [],
                d_value = JStr ''x'', d_type = JStr []\<rparr>])]
        (property_of [''wds-c'', ''a'', ''b''])"
proof -
  let ?e = "\<lparr>KEY_PREFIX_COLLECTION = ''@'', round4 = js_to_string, quotient16 = (\<lambda>n. [])\<rparr>"
  let ?leaf = "JObj [(''$value'', JStr ''x'')]"
  let ?tree = "JObj [(''a'', JObj [(''b'', ?leaf)])]"
  let ?defs = "[(''default'',
              [\<lparr>d_property = ''--wds-c-a-b'', d_propertyName = ''wdsCAB'',
                d_figmaId = Some (JStr ''UNDEFINED''), d_description = JStr [],
                d_value = JStr ''x'', d_type = JStr []\<rparr>])]"
  have at: "leaf_at ?tree [''a'', ''b''] = Some ?leaf"
    by (simp add: has_property_def get_JObj)
  have modes: "modes_of ?leaf = None"
    by (simp add: modes_of_def extensionData_of_def get_JObj)
  have run: "traverse ?e [] ?tree [] ''@c'' ''wds-c'' True (JStr []) [''wds-c''] = Inr ?defs"
    by (simp add: token_eval)
  have "declares ?defs (property_of ([''wds-c''] @ [''a'', ''b'']))"
    using traverse_property_at_path
      [of ?tree "[''a'', ''b'']" ?leaf ?e "[]" "[]" "''@c''" "''wds-c''" True "JStr []"
          "[''wds-c'']" ?defs]
      at modes run
    by simp
  with at modes run show ?thesis by simp
qed

section \<open>Properties of inherited names\<close>

text \<open>
  What the program does with the name of a member of \<^verbatim>\<open>Object.prototype\<close> where it
  computes the key of a plain object. A key \<^verbatim>\<open>@constructor\<close> of the token document gets
  no settings and no warning, and its collection is not processed, whatever it holds. A
  mode named \<^verbatim>\<open>constructor\<close> ends the traversal with a \<^verbatim>\<open>TypeError\<close>.
\<close>

theorem inherited_names:
  "processTokenJSON \<lparr>KEY_PREFIX_COLLECTION = ''@'', round4 = js_to_string, quotient16 = (\<lambda>n. [])\<rparr>
     [] [(''@constructor'', JObj [(''a'', JObj [(''$value'', JStr ''x'')])])]
   = ([], Inr \<lparr>r_processed = [], r_themeCSS = file_header, r_config = []\<rparr>)
   \<and> push_definition [] ''constructor''
        \<lparr>d_property = ''--wds-c-x'', d_propertyName = ''wdsCX'',
         d_figmaId = Some (JStr ''V:1''), d_description = JStr [],
         d_value = JStr ''a'', d_type = JStr []\<rparr> = Inl TypeError
   \<and> traverse \<lparr>KEY_PREFIX_COLLECTION = ''@'', round4 = js_to_string, quotient16 = (\<lambda>n. [])\<rparr> []
        (JObj [(''$value'', JStr ''#000''),
               (''$extensions'', JObj [(''com.figma.wds'',
                  JObj [(''figmaId'', JStr ''V:1''),
                        (''modes'', JObj [(''constructor'', JStr ''#fff'')])])])])
        [] ''@c'' ''wds-c'' True (JStr []) [''wds-c'', ''x'']
      = Inl TypeError"
  by (simp add: token_eval)

end
